theory Spec2Isabelle
  imports Main "HOL-Library.Char_ord" "HOL-Library.List_Lexorder"
begin

section \<open>Python string primitives used by the driver manager\<close>

text \<open>
  The source is Python; its strings are modelled as \<open>string\<close> (character lists), the
  characters being the code points below 256. Each helper below is one Python string
  method, with the behaviour the source relies on.
\<close>

definition newline :: char where
  "newline = CHR 0x0A"

text \<open>
  \<open>str.isspace\<close> on one character: the ASCII blanks and separators, NEL (\<open>U+0085\<close>) and
  the no-break space (\<open>U+00A0\<close>). \<open>strip\<close>, \<open>split()\<close> and \<open>int\<close> use the same set.
\<close>

definition is_space :: "char \<Rightarrow> bool" where
  "is_space c = (c \<in> set [CHR 0x09, CHR 0x0A, CHR 0x0B, CHR 0x0C, CHR 0x0D,
                           CHR 0x1C, CHR 0x1D, CHR 0x1E, CHR 0x1F, CHR 0x20,
                           CHR 0x85, CHR 0xA0])"

text \<open>\<open>s.split(c)\<close> for a one-character separator: never the empty list.\<close>

fun split_chr :: "char \<Rightarrow> string \<Rightarrow> string list" where
  "split_chr c [] = [[]]"
| "split_chr c (x # xs) =
     (if x = c then [] # split_chr c xs
      else (case split_chr c xs of
              [] \<Rightarrow> [[x]]
            | w # ws \<Rightarrow> (x # w) # ws))"

text \<open>\<open>s.split()\<close>: the maximal runs of non-whitespace characters.\<close>

fun split_ws_aux :: "string \<Rightarrow> string \<Rightarrow> string list" where
  "split_ws_aux cur [] = (if cur = [] then [] else [cur])"
| "split_ws_aux cur (x # xs) =
     (if is_space x then (if cur = [] then split_ws_aux [] xs else cur # split_ws_aux [] xs)
      else split_ws_aux (cur @ [x]) xs)"

definition split_ws :: "string \<Rightarrow> string list" where
  "split_ws s = split_ws_aux [] s"

definition lstrip :: "string \<Rightarrow> string" where
  "lstrip s = dropWhile is_space s"

definition rstrip :: "string \<Rightarrow> string" where
  "rstrip s = rev (dropWhile is_space (rev s))"

definition strip :: "string \<Rightarrow> string" where
  "strip s = rstrip (lstrip s)"

text \<open>\<open>s.rstrip(c)\<close> and \<open>s.strip(c)\<close> for a one-character set.\<close>

definition rstrip_chr :: "char \<Rightarrow> string \<Rightarrow> string" where
  "rstrip_chr c s = rev (dropWhile (\<lambda>x. x = c) (rev s))"

definition strip_chr :: "char \<Rightarrow> string \<Rightarrow> string" where
  "strip_chr c s = rstrip_chr c (dropWhile (\<lambda>x. x = c) s)"

definition startswith :: "string \<Rightarrow> string \<Rightarrow> bool" where
  "startswith s p = (take (length p) s = p)"

text \<open>\<open>sub in s\<close>.\<close>

fun contains :: "string \<Rightarrow> string \<Rightarrow> bool" where
  "contains [] sub = (sub = [])"
| "contains (x # xs) sub = (startswith (x # xs) sub \<or> contains xs sub)"

text \<open>
  \<open>s.lower()\<close>: the letters \<open>A\<close> to \<open>Z\<close> and the capital letters \<open>U+00C0\<close> to \<open>U+00DE\<close>
  (the multiplication sign \<open>U+00D7\<close> is not one) move up by 32.
\<close>

definition lower_chr :: "char \<Rightarrow> char" where
  "lower_chr c =
     (if (CHR ''A'' \<le> c \<and> c \<le> CHR ''Z'') \<or> (CHR 0xC0 \<le> c \<and> c \<le> CHR 0xDE \<and> c \<noteq> CHR 0xD7)
      then char_of (of_char c + (32::nat)) else c)"

definition lower :: "string \<Rightarrow> string" where
  "lower s = map lower_chr s"

text \<open>\<open>sep.join(xs)\<close>.\<close>

fun join :: "string \<Rightarrow> string list \<Rightarrow> string" where
  "join sep [] = []"
| "join sep [x] = x"
| "join sep (x # y # ys) = x @ sep @ join sep (y # ys)"

text \<open>\<open>str(n)\<close> for a non-negative integer.\<close>

definition digit_chr :: "nat \<Rightarrow> char" where
  "digit_chr d = char_of (48 + d)"

fun str_nat :: "nat \<Rightarrow> string" where
  "str_nat n = (if n < 10 then [digit_chr n] else str_nat (n div 10) @ [digit_chr (n mod 10)])"

declare str_nat.simps [simp del]

text \<open>\<open>x or ""\<close> on an optional string.\<close>

definition or_empty :: "string option \<Rightarrow> string" where
  "or_empty s = (case s of None \<Rightarrow> [] | Some t \<Rightarrow> t)"

section \<open>Exceptions\<close>

text \<open>
  The exceptions the modelled code can meet. \<open>Exception\<close> carries \<open>str(e)\<close> and stands
  for every exception other than the ones named.
\<close>

datatype exn = TimeoutExpired | IndexError | ValueError | OSError | Exception string

text \<open>\<open>xs[i]\<close> for a non-negative index.\<close>

definition py_nth :: "'a list \<Rightarrow> nat \<Rightarrow> exn + 'a" where
  "py_nth xs i = (if i < length xs then Inr (xs ! i) else Inl IndexError)"

section \<open>CommandExecutor: \<open>SystemManager.run_command\<close>\<close>

text \<open>
  \<open>subprocess.run(cmd, capture_output=True, text=True, timeout=t, check=False[, input=i])\<close>
  is the boundary to the host: given the final argument vector, the optional standard
  input and the timeout it either raises or returns a completed process.
\<close>

datatype completed = CompletedProcess (returncode: int) (stdout: "string option") (stderr: "string option")

type_synonym subprocess = "string list \<Rightarrow> string option \<Rightarrow> nat \<Rightarrow> exn + completed"

record SystemManager =
  demo_mode :: bool
  distro_name :: string
  distro_family :: string
  nvidia_arch :: string
  gpu_present :: bool
  gpu_model :: string
  current_driver :: string
  fedora_repo_version_cache :: "string option"
  dnf_cmd :: "string option"

type_synonym cmd_result = "int \<times> string \<times> string"

text \<open>The argument vector and the standard input that \<open>run_command\<close> hands to \<open>subprocess.run\<close>.\<close>

definition sudo_argv :: "bool \<Rightarrow> string option \<Rightarrow> string list \<Rightarrow> string list" where
  "sudo_argv sudo sudo_password cmd =
     (if sudo then
        (if sudo_password \<noteq> None then [''sudo'', ''-S''] @ cmd else [''sudo''] @ cmd)
      else cmd)"

definition sudo_input :: "bool \<Rightarrow> string option \<Rightarrow> string option" where
  "sudo_input sudo sudo_password =
     (case sudo_password of
        Some pw \<Rightarrow> (if sudo then Some (pw @ [newline]) else None)
      | None \<Rightarrow> None)"

text \<open>
  The body of the \<open>try\<close> block: what \<open>subprocess.run\<close> raises is raised, what it returns
  becomes the triple.
\<close>

definition run_command_try ::
  "subprocess \<Rightarrow> string list \<Rightarrow> bool \<Rightarrow> nat \<Rightarrow> string option \<Rightarrow> exn + cmd_result" where
  "run_command_try sp cmd sudo timeout sudo_password =
     (case sp (sudo_argv sudo sudo_password cmd) (sudo_input sudo sudo_password) timeout of
        Inl e \<Rightarrow> Inl e
      | Inr p \<Rightarrow> Inr (returncode p, or_empty (stdout p), or_empty (stderr p)))"

text \<open>\<open>str(e)\<close> of a caught exception.\<close>

fun str_exn :: "exn \<Rightarrow> string" where
  "str_exn (Exception m) = m"
| "str_exn TimeoutExpired = ''Timeout''"
| "str_exn IndexError = ''list index out of range''"
| "str_exn ValueError = ''invalid literal''"
| "str_exn OSError = ''OSError''"

text \<open>
  \<open>run_command\<close> with its two handlers: \<open>except subprocess.TimeoutExpired\<close> first,
  \<open>except Exception as e\<close> for everything else. The result is \<open>Inl\<close> exactly when an
  exception leaves the function.
\<close>

definition run_command_exc ::
  "subprocess \<Rightarrow> SystemManager \<Rightarrow> string list \<Rightarrow> bool \<Rightarrow> nat \<Rightarrow> string option \<Rightarrow> exn + cmd_result" where
  "run_command_exc sp self cmd sudo timeout sudo_password =
     (if demo_mode self then Inr (0, ''Komenda: '' @ join '' '' cmd, [])
      else (case run_command_try sp cmd sudo timeout sudo_password of
              Inr r \<Rightarrow> Inr r
            | Inl TimeoutExpired \<Rightarrow> Inr (124, [], ''Timeout'')
            | Inl e \<Rightarrow> Inr (1, [], str_exn e)))"

text \<open>The same function as its callers see it: a triple, always.\<close>

definition run_command ::
  "subprocess \<Rightarrow> SystemManager \<Rightarrow> string list \<Rightarrow> bool \<Rightarrow> nat \<Rightarrow> string option \<Rightarrow> cmd_result" where
  "run_command sp self cmd sudo timeout sudo_password =
     (case run_command_exc sp self cmd sudo timeout sudo_password of
        Inr r \<Rightarrow> r
      | Inl e \<Rightarrow> (1, [], str_exn e))"

section \<open>VersionResolver: repository series scan\<close>

text \<open>\<open>s.split(c)[0]\<close>: the split of a string is never empty, so index 0 exists.\<close>

definition split_first :: "char \<Rightarrow> string \<Rightarrow> string" where
  "split_first c s = (case split_chr c s of [] \<Rightarrow> [] | w # _ \<Rightarrow> w)"

text \<open>\<open>line.split(":")[1].strip().split("-")[0]\<close>; index 1 raises when the line has no colon.\<close>

definition version_of_line :: "string \<Rightarrow> exn + string" where
  "version_of_line line =
     (case py_nth (split_chr CHR '':'' line) 1 of
        Inl e \<Rightarrow> Inl e
      | Inr field \<Rightarrow> Inr (split_first CHR ''-'' (strip field)))"

text \<open>
  The inner loop of both scans: the version of the first line that starts with
  \<open>Version:\<close>, \<open>None\<close> when the loop ends without finding one.
\<close>

fun first_version_line :: "string list \<Rightarrow> exn + string option" where
  "first_version_line [] = Inr None"
| "first_version_line (line # ls) =
     (if startswith line ''Version:'' then
        (case version_of_line line of Inl e \<Rightarrow> Inl e | Inr version \<Rightarrow> Inr (Some version))
      else first_version_line ls)"

definition repo_series :: "nat list" where
  "repo_series = [610, 600, 590, 580, 550, 535, 525, 515]"

definition apt_cache_show :: "subprocess \<Rightarrow> SystemManager \<Rightarrow> nat \<Rightarrow> cmd_result" where
  "apt_cache_show sp self v =
     run_command sp self [''apt-cache'', ''show'', ''nvidia-driver-'' @ str_nat v @ ''-open''] False 300 None"

text \<open>
  The loop of \<open>highest_repo_driver\<close> that fills \<open>available\<close>: one pair per series whose
  query exits with 0 and prints a \<open>Version:\<close> line, in the order of the series list.
\<close>

fun scan_available :: "subprocess \<Rightarrow> SystemManager \<Rightarrow> nat list \<Rightarrow> exn + (nat \<times> string) list" where
  "scan_available sp self [] = Inr []"
| "scan_available sp self (v # vs) =
     (let result = apt_cache_show sp self v in
      if fst result = 0 then
        (case first_version_line (split_chr newline (fst (snd result))) of
           Inl e \<Rightarrow> Inl e
         | Inr None \<Rightarrow> scan_available sp self vs
         | Inr (Some version) \<Rightarrow>
             (case scan_available sp self vs of
                Inl e \<Rightarrow> Inl e
              | Inr rest \<Rightarrow> Inr ((v, version) # rest)))
      else scan_available sp self vs)"

text \<open>\<open>e[1] if "." in e[1] else str(e[0])\<close> for an entry \<open>e\<close> of \<open>available\<close>.\<close>

definition shown_version :: "nat \<times> string \<Rightarrow> string" where
  "shown_version e = (if contains (snd e) ''.'' then snd e else str_nat (fst e))"

definition get_dnf_cmd :: "subprocess \<Rightarrow> SystemManager \<Rightarrow> string \<times> SystemManager" where
  "get_dnf_cmd sp self =
     (if distro_family self \<noteq> ''fedora'' then (''dnf'', self)
      else (case dnf_cmd self of
              Some c \<Rightarrow> (c, self)
            | None \<Rightarrow>
                if demo_mode self then (''dnf'', self\<lparr>dnf_cmd := Some ''dnf''\<rparr>)
                else (let rc = fst (run_command sp self [''which'', ''dnf5''] False 2 None);
                          c = (if rc = 0 then ''dnf5'' else ''dnf'')
                      in (c, self\<lparr>dnf_cmd := Some c\<rparr>))))"

text \<open>
  The loop of \<open>_fedora_repo_driver_version\<close>: the first line naming \<open>akmod-nvidia\<close> and
  \<open>.x86_64\<close> decides; both of its exits leave the loop.
\<close>

fun akmod_version :: "string list \<Rightarrow> string" where
  "akmod_version [] = []"
| "akmod_version (line # ls) =
     (if contains line ''akmod-nvidia'' \<and> contains line ''.x86_64'' then
        (let parts = split_ws line in
         if length parts \<ge> 2 then
           (let ver = split_first CHR ''-'' (parts ! 1) in
            if contains ver ''.'' then ver else [])
         else [])
      else akmod_version ls)"

definition fedora_repo_driver_version :: "subprocess \<Rightarrow> SystemManager \<Rightarrow> string \<times> SystemManager" where
  "fedora_repo_driver_version sp self =
     (case fedora_repo_version_cache self of
        Some ver \<Rightarrow> (ver, self)
      | None \<Rightarrow>
          (case get_dnf_cmd sp self of
             (dnf, self1) \<Rightarrow>
               (let result = run_command sp self1
                      [''env'', ''DNF_FRONTEND=noninteractive'', dnf, ''list'', ''available'',
                       ''akmod-nvidia'', ''-q''] False 60 None;
                    ver = (if fst result = 0 \<and> fst (snd result) \<noteq> []
                           then akmod_version (split_chr newline (fst (snd result))) else [])
                in (ver, self1\<lparr>fedora_repo_version_cache := Some ver\<rparr>))))"

definition highest_repo_driver :: "subprocess \<Rightarrow> SystemManager \<Rightarrow> (exn + string) \<times> SystemManager" where
  "highest_repo_driver sp self =
     (if demo_mode self then (Inr ''580.126.09'', self)
      else if distro_family self = ''fedora'' then
        (case fedora_repo_driver_version sp self of
           (ver, self1) \<Rightarrow> (Inr (if ver \<noteq> [] then ver else ''580''), self1))
      else
        (case scan_available sp self repo_series of
           Inl e \<Rightarrow> (Inl e, self)
         | Inr available \<Rightarrow>
             (if length available \<ge> 2 then Inr (shown_version (available ! 1))
              else if length available = 1 then Inr (shown_version (available ! 0))
              else Inr ''580'', self)))"

text \<open>The loop of \<open>highest_repo_driver_latest\<close>: it returns at the first series found.\<close>

fun scan_latest :: "subprocess \<Rightarrow> SystemManager \<Rightarrow> nat list \<Rightarrow> exn + string" where
  "scan_latest sp self [] = Inr ''580''"
| "scan_latest sp self (v # vs) =
     (let result = apt_cache_show sp self v in
      if fst result = 0 then
        (case first_version_line (split_chr newline (fst (snd result))) of
           Inl e \<Rightarrow> Inl e
         | Inr None \<Rightarrow> scan_latest sp self vs
         | Inr (Some version) \<Rightarrow> Inr (if contains version ''.'' then version else str_nat v))
      else scan_latest sp self vs)"

definition highest_repo_driver_latest :: "subprocess \<Rightarrow> SystemManager \<Rightarrow> (exn + string) \<times> SystemManager" where
  "highest_repo_driver_latest sp self =
     (if demo_mode self then (Inr ''590.48.01'', self)
      else if distro_family self = ''fedora'' then
        (case fedora_repo_driver_version sp self of
           (ver, self1) \<Rightarrow> (Inr (if ver \<noteq> [] then ver else ''580''), self1))
      else (scan_latest sp self repo_series, self))"

text \<open>
  What the package cache reports for one series: the version of the first \<open>Version:\<close>
  line when the query exits with 0, \<open>None\<close> when the series does not resolve.
\<close>

definition series_version :: "subprocess \<Rightarrow> SystemManager \<Rightarrow> nat \<Rightarrow> string option" where
  "series_version sp self v =
     (let result = apt_cache_show sp self v in
      if fst result = 0 then
        (case first_version_line (split_chr newline (fst (snd result))) of
           Inl e \<Rightarrow> None
         | Inr r \<Rightarrow> r)
      else None)"

text \<open>The series that resolve, in the order of the fixed descending list.\<close>

definition found_series :: "subprocess \<Rightarrow> SystemManager \<Rightarrow> nat list" where
  "found_series sp self = filter (\<lambda>v. series_version sp self v \<noteq> None) repo_series"

subsection \<open>Example hosts\<close>

definition ubuntu_manager :: SystemManager where
  "ubuntu_manager =
     \<lparr>demo_mode = False, distro_name = ''Ubuntu'', distro_family = ''ubuntu'',
      nvidia_arch = ''Linux-x86_64'', gpu_present = True, gpu_model = [],
      current_driver = ''brak'', fedora_repo_version_cache = None, dnf_cmd = None\<rparr>"

text \<open>A package cache in which only the series 600 and 580 resolve.\<close>

definition cache_600_580 :: subprocess where
  "cache_600_580 argv inp t =
     (if argv = [''apt-cache'', ''show'', ''nvidia-driver-600-open'']
        then Inr (CompletedProcess 0
               (Some (''Package: nvidia-driver-600-open'' @ [newline] @
                      ''Version: 600.12.03-0ubuntu1'' @ [newline])) (Some []))
      else if argv = [''apt-cache'', ''show'', ''nvidia-driver-580-open'']
        then Inr (CompletedProcess 0
               (Some (''Package: nvidia-driver-580-open'' @ [newline] @
                      ''Version: 580.95.05-0ubuntu1'' @ [newline])) (Some []))
      else Inr (CompletedProcess 100 (Some []) (Some ''E: No packages found'')))"

text \<open>A package cache in which only the series 550 resolves, and one in which none does.\<close>

definition cache_550 :: subprocess where
  "cache_550 argv inp t =
     (if argv = [''apt-cache'', ''show'', ''nvidia-driver-550-open'']
        then Inr (CompletedProcess 0
               (Some (''Package: nvidia-driver-550-open'' @ [newline] @
                      ''Version: 550.163.01-0ubuntu1'' @ [newline])) (Some []))
      else Inr (CompletedProcess 100 (Some []) (Some ''E: No packages found'')))"

definition cache_empty :: subprocess where
  "cache_empty argv inp t = Inr (CompletedProcess 100 (Some []) (Some ''E: No packages found''))"

text \<open>A host on which every command runs into its timeout.\<close>

definition always_timeout :: subprocess where
  "always_timeout argv inp t = Inl TimeoutExpired"

section \<open>SystemProbe: distribution family and missing dependencies\<close>

text \<open>\<open>SystemManager.__init__\<close>; the architecture string comes from \<open>_detect_arch\<close>.\<close>

definition new_manager :: "bool \<Rightarrow> string \<Rightarrow> SystemManager" where
  "new_manager demo arch =
     \<lparr>demo_mode = demo, distro_name = ''Unknown'', distro_family = ''unknown'',
      nvidia_arch = arch, gpu_present = False, gpu_model = [],
      current_driver = ''brak'', fedora_repo_version_cache = None, dnf_cmd = None\<rparr>"

definition ubuntu_ids :: "string list" where
  "ubuntu_ids = [''ubuntu'', ''kubuntu'', ''lubuntu'', ''xubuntu'', ''pop'', ''linuxmint'',
                 ''zorin'', ''elementary'', ''neon'']"

definition fedora_ids :: "string list" where
  "fedora_ids = [''fedora'', ''rhel'', ''centos'', ''rocky'', ''alma'']"

text \<open>The \<open>if/elif/else\<close> chain of \<open>detect_distro\<close> on one identifier.\<close>

definition family_of_id :: "string \<Rightarrow> string" where
  "family_of_id distro_id =
     (if distro_id \<in> set ubuntu_ids then ''ubuntu''
      else if distro_id = ''debian'' then ''debian''
      else if distro_id \<in> set fedora_ids then ''fedora''
      else ''other'')"

text \<open>\<open>line.split("=")[1].strip().strip('"')\<close>.\<close>

definition value_of_line :: "string \<Rightarrow> exn + string" where
  "value_of_line line =
     (case py_nth (split_chr CHR ''='' line) 1 of
        Inl e \<Rightarrow> Inl e
      | Inr field \<Rightarrow> Inr (strip_chr CHR 0x22 (strip field)))"

text \<open>The loop over the lines of \<open>/etc/os-release\<close>; a later line overwrites an earlier one.\<close>

fun detect_lines :: "SystemManager \<Rightarrow> string list \<Rightarrow> exn + SystemManager" where
  "detect_lines self [] = Inr self"
| "detect_lines self (line # ls) =
     (if startswith line ''ID='' then
        (case value_of_line line of
           Inl e \<Rightarrow> Inl e
         | Inr distro_id \<Rightarrow> detect_lines (self\<lparr>distro_family := family_of_id distro_id\<rparr>) ls)
      else if startswith line ''NAME='' then
        (case value_of_line line of
           Inl e \<Rightarrow> Inl e
         | Inr name \<Rightarrow> detect_lines (self\<lparr>distro_name := name\<rparr>) ls)
      else detect_lines self ls)"

text \<open>
  \<open>detect_distro\<close>. The first argument is what reading \<open>/etc/os-release\<close> gives: its
  content, or the exception of \<open>open\<close>. The bare \<open>except\<close> catches everything.
\<close>

definition detect_distro :: "exn + string \<Rightarrow> SystemManager \<Rightarrow> SystemManager" where
  "detect_distro os_release self =
     (if demo_mode self then self\<lparr>distro_name := ''Windows'', distro_family := ''windows''\<rparr>
      else (case os_release of
              Inl e \<Rightarrow> self\<lparr>distro_family := ''unknown'', distro_name := ''Unknown''\<rparr>
            | Inr content \<Rightarrow>
                (case detect_lines self (split_chr newline content) of
                   Inl e \<Rightarrow> self\<lparr>distro_family := ''unknown'', distro_name := ''Unknown''\<rparr>
                 | Inr self1 \<Rightarrow> self1)))"

text \<open>\<open>os.uname().release\<close> inside \<open>try\<close>, with \<open>"unknown"\<close> on an exception.\<close>

definition kernel_release :: "exn + string \<Rightarrow> string" where
  "kernel_release uname = (case uname of Inl e \<Rightarrow> ''unknown'' | Inr r \<Rightarrow> r)"

text \<open>
  One dependency query of \<open>get_missing_dependency_packages\<close>: the package is missing when
  the query exits with a code other than 0.
\<close>

definition query_missing :: "subprocess \<Rightarrow> SystemManager \<Rightarrow> string list \<Rightarrow> string \<Rightarrow> string list" where
  "query_missing sp self argv pkg =
     (if fst (run_command sp self argv False 300 None) \<noteq> 0 then [pkg] else [])"

text \<open>
  \<open>get_missing_dependency_packages\<close>: the list it returns, paired with the queries it
  ran (the argument vectors given to \<open>run_command\<close>, in order).
\<close>

definition get_missing_dependency_packages ::
  "subprocess \<Rightarrow> exn + string \<Rightarrow> SystemManager \<Rightarrow> string \<Rightarrow> string list \<times> string list list" where
  "get_missing_dependency_packages sp uname self install_type =
     (if demo_mode self \<or> install_type \<notin> set [''repo'', ''run''] then ([], [])
      else if distro_family self = ''fedora'' then
        (let q1 = [''rpm'', ''-q'', ''kernel-devel''];
             q2 = [''rpm'', ''-q'', ''gcc'']
         in (query_missing sp self q1 ''kernel-devel'' @ query_missing sp self q2 ''gcc'',
             [q1, q2]))
      else
        (let kernel = kernel_release uname;
             q1 = [''dpkg'', ''-l'', ''linux-headers-'' @ kernel];
             q2 = [''dpkg'', ''-l'', ''dkms''];
             q3 = [''dpkg'', ''-l'', ''build-essential'']
         in (query_missing sp self q1 (''linux-headers-'' @ kernel)
               @ query_missing sp self q2 ''dkms''
               @ query_missing sp self q3 ''build-essential'',
             [q1, q2, q3])))"

text \<open>An Arch Linux host: its identifier is in no list, and it has no \<open>dpkg\<close>.\<close>

definition arch_os_release :: string where
  "arch_os_release = ''NAME='' @ [CHR 0x22] @ ''Arch Linux'' @ [CHR 0x22, newline] @ ''ID=arch'' @ [newline]"

definition no_such_program :: subprocess where
  "no_such_program argv inp t = Inl (Exception ''[Errno 2] No such file or directory'')"

text \<open>The identifier an \<open>ID=\<close> line carries (index 1 exists: the line contains \<open>=\<close>).\<close>

definition id_of_line :: "string \<Rightarrow> string" where
  "id_of_line line = strip_chr CHR 0x22 (strip (split_chr CHR ''='' line ! 1))"

text \<open>The identifiers of the static mapping.\<close>

definition mapped_ids :: "string list" where
  "mapped_ids = ubuntu_ids @ [''debian''] @ fedora_ids"

section \<open>VersionResolver: \<open>fetch_versions\<close>\<close>

subsection \<open>The regular expressions of the source\<close>


definition in_range :: "char \<Rightarrow> char \<Rightarrow> char \<Rightarrow> bool" where
  "in_range lo hi x = (lo \<le> x \<and> x \<le> hi)"














subsection \<open>Choosing the newest match\<close>

definition is_digit :: "char \<Rightarrow> bool" where
  "is_digit c = in_range CHR ''0'' CHR ''9'' c"

definition digit_val :: "char \<Rightarrow> nat" where
  "digit_val c = of_char c - 48"

text \<open>
  \<open>int(s)\<close> on a string: blanks around the numeral are dropped, one sign may lead, and
  the digits may be grouped by single underscores. \<open>digits_of\<close> checks the grouping and
  returns the digits alone; its flag says whether the previous character was a digit.
\<close>

fun digits_of :: "bool \<Rightarrow> string \<Rightarrow> string option" where
  "digits_of prev [] = (if prev then Some [] else None)"
| "digits_of prev (c # cs) =
     (if is_digit c then map_option ((#) c) (digits_of True cs)
      else if c = CHR ''_'' \<and> prev then digits_of False cs
      else None)"

text \<open>
  \<open>sys.int_info.default_max_str_digits\<close>: \<open>int\<close> raises \<open>ValueError\<close> on a numeral of more
  digits, as it does on a string that is no numeral.
\<close>

definition MAX_STR_DIGITS :: nat where
  "MAX_STR_DIGITS = 4300"

definition py_int :: "string \<Rightarrow> exn + int" where
  "py_int s =
     (let t = strip s;
          negative = (t \<noteq> [] \<and> hd t = CHR ''-'');
          body = (if t \<noteq> [] \<and> (hd t = CHR ''-'' \<or> hd t = CHR ''+'') then tl t else t)
      in case digits_of False body of
           None \<Rightarrow> Inl ValueError
         | Some ds \<Rightarrow>
             if MAX_STR_DIGITS < length ds then Inl ValueError
             else (let n = int (foldl (\<lambda>a c. 10 * a + digit_val c) 0 ds)
                   in Inr (if negative then - n else n)))"




subsection \<open>The function\<close>


definition PRODUCTION_VERSION :: string where "PRODUCTION_VERSION = ''580.126.09''"









subsection \<open>Notions used to state the properties of \<open>fetch_versions\<close>\<close>










text \<open>The directory entry with the three given fields.\<close>

definition entry :: "string \<Rightarrow> string \<Rightarrow> string \<Rightarrow> string" where
  "entry a b c = a @ ''.'' @ b @ ''.'' @ c @ ''/''"





section \<open>The host and the main window\<close>

text \<open>
  What the program reads from its surroundings besides the answers of commands.
  \<open>DEMO_MODE\<close> is the module constant of that name (true on Windows).
\<close>

record host =
  DEMO_MODE :: bool
  IS_LINUX :: bool
  run :: subprocess
  proc_modules :: "exn + string"
  uname_release :: "exn + string"
  open_fails :: "string \<Rightarrow> bool"
  unlink_fails :: "string \<Rightarrow> bool"
  file_exists :: "string \<Rightarrow> bool"

text \<open>
  The effects on the host and the signals of a worker, in the order in which they happen.
  \<open>Ran\<close> is one call of \<open>subprocess.run\<close> made by a worker or by the window through
  \<open>run_command\<close>, with the final argument vector. The read-only probes of
  \<open>SystemManager\<close> and the credential checks of \<open>check_sudo\<close> (which only run \<open>sudo\<close>
  itself) are not recorded. \<open>Output\<close>, \<open>Progress\<close>, \<open>Ask_restart\<close> and \<open>Finished\<close> are the
  signals of \<open>InstallationThread\<close>; a message is kept as its translation key and arguments.
\<close>

datatype event =
    Ran "string list"
  | Wrote_backup string
  | Removed_backup string
  | Wrote_file string
  | Removed_file string
  | Thread_started nat
  | Output string "string list" string
  | Progress nat
  | Ask_restart
  | Finished int

text \<open>A backup record, the JSON object of one snapshot file.\<close>

record backup =
  date :: string
  backup_id :: string
  previous_driver :: string
  packages :: "string list"
  install_about_to :: string
  target_version :: string

text \<open>An \<open>InstallationThread\<close>: its install type and its parameter dictionary.\<close>

datatype pval = PStr string | PBool bool | PNone

record thread =
  install_type :: string
  params :: "(string \<times> pval) list"

text \<open>
  The main window. \<open>threads\<close> holds every \<open>InstallationThread\<close> ever started, \<open>running\<close>
  the indices of those that have not emitted \<open>finished\<close>; \<open>install_thread\<close> is the
  attribute \<open>_install_thread\<close>. \<open>backup_dir\<close> is the content of \<open>BACKUP_DIR\<close> (file name
  and record), \<open>install_history\<close> the content of the history file.
\<close>

record window =
  system :: SystemManager
  versions_dict :: "(string \<times> string) list"
  install_thread :: "nat option"
  sudo_password :: "string option"
  threads :: "thread list"
  running :: "nat list"
  log_text :: "(string \<times> string list \<times> string) list"
  current_log_file :: "string option"
  progress_bar :: "nat \<times> bool"
  backup_dir :: "(string \<times> backup) list"
  install_history :: "(string \<times> string \<times> string \<times> bool) list"
  trace :: "event list"

text \<open>\<open>self.log(self._tr(key).format(args), level)\<close>: the line is kept as key, arguments and level.\<close>

definition wlog :: "string \<Rightarrow> string list \<Rightarrow> string \<Rightarrow> window \<Rightarrow> window" where
  "wlog key args level w = w\<lparr>log_text := log_text w @ [(key, args, level)]\<rparr>"

definition record_event :: "event \<Rightarrow> window \<Rightarrow> window" where
  "record_event e w = w\<lparr>trace := trace w @ [e]\<rparr>"

text \<open>\<open>run_command\<close> called by the window for a command that is not a probe: the call is recorded.\<close>

definition window_run :: "host \<Rightarrow> string list \<Rightarrow> bool \<Rightarrow> nat \<Rightarrow> window \<Rightarrow> cmd_result \<times> window" where
  "window_run h cmd sudo timeout w =
     (run_command (run h) (system w) cmd sudo timeout (sudo_password w),
      if demo_mode (system w) then w
      else record_event (Ran (sudo_argv sudo (sudo_password w) cmd)) w)"

subsection \<open>Dates\<close>

record datetime =
  year :: nat
  month :: nat
  day :: nat
  hour :: nat
  minute :: nat
  second :: nat
  microsecond :: nat

text \<open>The last \<open>k\<close> decimal digits of a number, zero-padded.\<close>

fun zpad :: "nat \<Rightarrow> nat \<Rightarrow> string" where
  "zpad 0 n = []"
| "zpad (Suc k) n = zpad k (n div 10) @ [digit_chr (n mod 10)]"

text \<open>\<open>strftime("%Y%m%d-%H%M%S")\<close>; \<open>%Y\<close> is the year without padding.\<close>

definition strftime_stamp :: "datetime \<Rightarrow> string" where
  "strftime_stamp t =
     str_nat (year t) @ zpad 2 (month t) @ zpad 2 (day t) @ ''-'' @
     zpad 2 (hour t) @ zpad 2 (minute t) @ zpad 2 (second t)"

text \<open>\<open>isoformat()\<close>: the microseconds appear only when they are not zero.\<close>

definition isoformat :: "datetime \<Rightarrow> string" where
  "isoformat t =
     zpad 4 (year t) @ ''-'' @ zpad 2 (month t) @ ''-'' @ zpad 2 (day t) @ ''T'' @
     zpad 2 (hour t) @ '':'' @ zpad 2 (minute t) @ '':'' @ zpad 2 (second t) @
     (if microsecond t = 0 then [] else ''.'' @ zpad 6 (microsecond t))"

section \<open>BackupManager\<close>

definition MAX_BACKUPS :: nat where
  "MAX_BACKUPS = 10"

text \<open>\<open>get_current_driver\<close>: \<open>nvidia-smi\<close> first, then the module list, then \<open>"brak"\<close>.\<close>

definition get_current_driver :: "subprocess \<Rightarrow> exn + string \<Rightarrow> SystemManager \<Rightarrow> string" where
  "get_current_driver sp modules self =
     (if demo_mode self then ''550.90.07''
      else
        (let result = run_command sp self
               [''nvidia-smi'', ''--query-gpu=driver_version'', ''--format=csv,noheader''] False 300 None;
             out = strip (fst (snd result))
         in if fst result = 0 \<and> out \<noteq> [] \<and> out \<noteq> ''N/A'' then split_first newline out
            else (case modules of
                    Inr content \<Rightarrow> if contains content ''nouveau'' then ''nouveau'' else ''brak''
                  | Inl e \<Rightarrow> ''brak'')))"

text \<open>The two loops of \<open>get_installed_nvidia_packages\<close>; \<open>line.split()[1]\<close> can raise.\<close>

fun rpm_nvidia_packages :: "string list \<Rightarrow> string list" where
  "rpm_nvidia_packages [] = []"
| "rpm_nvidia_packages (line # ls) =
     (if line \<noteq> [] \<and> (contains (lower line) ''nvidia'' \<or> contains line ''akmod-nvidia'') then
        (let pkg = strip line in
         if contains pkg ''nvidia-gpu-firmware'' then rpm_nvidia_packages ls
         else pkg # rpm_nvidia_packages ls)
      else rpm_nvidia_packages ls)"

fun dpkg_nvidia_packages :: "string list \<Rightarrow> exn + string list" where
  "dpkg_nvidia_packages [] = Inr []"
| "dpkg_nvidia_packages (line # ls) =
     (if startswith line ''ii'' \<and> (contains (lower line) ''nvidia'' \<or> contains (lower line) ''libnvidia''
                                  \<or> contains (lower line) ''linux-modules-nvidia'') then
        (case py_nth (split_ws line) 1 of
           Inl e \<Rightarrow> Inl e
         | Inr pkg \<Rightarrow>
             (case dpkg_nvidia_packages ls of Inl e \<Rightarrow> Inl e | Inr rest \<Rightarrow> Inr (pkg # rest)))
      else dpkg_nvidia_packages ls)"

definition get_installed_nvidia_packages :: "subprocess \<Rightarrow> SystemManager \<Rightarrow> exn + string list" where
  "get_installed_nvidia_packages sp self =
     (if demo_mode self then Inr []
      else if distro_family self = ''fedora'' then
        (let result = run_command sp self [''rpm'', ''-qa''] False 300 None in
         if fst result \<noteq> 0 then Inr []
         else Inr (rpm_nvidia_packages (split_chr newline (fst (snd result)))))
      else
        (let result = run_command sp self [''dpkg'', ''-l''] False 300 None in
         if fst result \<noteq> 0 then Inr []
         else dpkg_nvidia_packages (split_chr newline (fst (snd result)))))"

text \<open>\<open>BACKUP_DIR.glob("backup-*.json")\<close> on a file name.\<close>

definition endswith :: "string \<Rightarrow> string \<Rightarrow> bool" where
  "endswith s p = (length p \<le> length s \<and> drop (length s - length p) s = p)"

definition is_backup_name :: "string \<Rightarrow> bool" where
  "is_backup_name n =
     (startswith n ''backup-'' \<and> endswith n ''.json'' \<and> length ''backup-'' + length ''.json'' \<le> length n)"

text \<open>\<open>open(path, "w")\<close> and \<open>json.dump\<close>: a file of that name is replaced, a new one is added.\<close>

definition write_backup :: "string \<Rightarrow> backup \<Rightarrow> window \<Rightarrow> window" where
  "write_backup name data w =
     record_event (Wrote_backup name)
       (w\<lparr>backup_dir :=
            (if name \<in> set (map fst (backup_dir w))
             then map (\<lambda>entry. if fst entry = name then (name, data) else entry) (backup_dir w)
             else backup_dir w @ [(name, data)])\<rparr>)"

text \<open>The loop that unlinks the oldest files; an \<open>OSError\<close> of \<open>unlink\<close> is passed over.\<close>

fun remove_old :: "host \<Rightarrow> string list \<Rightarrow> window \<Rightarrow> window" where
  "remove_old h [] w = w"
| "remove_old h (old # olds) w =
     (if unlink_fails h old then remove_old h olds w
      else remove_old h olds
             (wlog ''log_backup_removed_old'' [old] ''INFO''
                (record_event (Removed_backup old)
                   (w\<lparr>backup_dir := filter (\<lambda>entry. fst entry \<noteq> old) (backup_dir w)\<rparr>))))"

definition backup_file_name :: "datetime \<Rightarrow> string" where
  "backup_file_name t = ''backup-'' @ strftime_stamp t @ ''.json''"

text \<open>
  \<open>create_backup\<close>. The two dates are the two readings of \<open>datetime.now()\<close>. Whatever
  is raised inside the \<open>try\<close> block ends in the warning and \<open>None\<close>.
\<close>

definition create_backup ::
  "host \<Rightarrow> datetime \<Rightarrow> datetime \<Rightarrow> string \<Rightarrow> string \<Rightarrow> window \<Rightarrow> string option \<times> window" where
  "create_backup h now1 now2 itype target w =
     (if DEMO_MODE h then (None, w)
      else
        (let driver = get_current_driver (run h) (proc_modules h) (system w) in
         case get_installed_nvidia_packages (run h) (system w) of
           Inl e \<Rightarrow> (None, wlog ''log_backup_create_failed'' [str_exn e] ''WARN'' w)
         | Inr pkgs \<Rightarrow>
             (let name = backup_file_name now1;
                  data = \<lparr>date = isoformat now2, backup_id = ''backup-'' @ strftime_stamp now1,
                          previous_driver = driver, packages = pkgs,
                          install_about_to = itype, target_version = target\<rparr>
              in if open_fails h name
                 then (None, wlog ''log_backup_create_failed'' [str_exn OSError] ''WARN'' w)
                 else
                   (let w1 = wlog ''log_backup_created'' [name] ''INFO'' (write_backup name data w);
                        all_backups = sort (filter is_backup_name (map fst (backup_dir w1)))
                    in (Some name,
                        if length all_backups > MAX_BACKUPS
                        then remove_old h (take (length all_backups - MAX_BACKUPS) all_backups) w1
                        else w1)))))"


subsection \<open>Restore\<close>

text \<open>
  How \<open>check_sudo\<close> ends: the branch taken through its dialogs. Only an accepted
  password typed into the window's own dialog is stored. The first call,
  \<open>subprocess.run(["sudo", "-n", "true"])\<close>, stands outside every \<open>try\<close>: when the program
  cannot be started (\<open>Not_started\<close>; a \<open>FileNotFoundError\<close> where there is no \<open>sudo\<close>),
  the \<open>OSError\<close> leaves the function.
\<close>

datatype sudo_path =
    Not_started
  | Not_linux | Cached | Refused | Password_accepted string | Password_rejected | Password_error
  | Askpass_accepted | Terminal_unavailable | Terminal_accepted | Terminal_failed

text \<open>The answers of the user to the dialogs of one operation.\<close>

record user =
  sudo_answer :: sudo_path
  continue_old_kernel :: bool
  continue_with_issues :: bool
  install_dnf5 :: bool
  confirm :: bool

definition check_sudo :: "host \<Rightarrow> user \<Rightarrow> window \<Rightarrow> exn + bool \<times> window" where
  "check_sudo h u w =
     (if \<not> IS_LINUX h then Inr (True, w)
      else (case sudo_answer u of
              Not_started \<Rightarrow> Inl OSError
            | Not_linux \<Rightarrow> Inr (True, w)
            | Cached \<Rightarrow> Inr (True, wlog ''log_sudo_ok'' [] ''INFO'' w)
            | Refused \<Rightarrow> Inr (False, wlog ''log_install_cancelled'' [] ''WARN'' w)
            | Password_accepted pw \<Rightarrow>
                Inr (True, (wlog ''log_sudo_granted'' [] ''SUCCESS'' w)\<lparr>sudo_password := Some pw\<rparr>)
            | Password_rejected \<Rightarrow> Inr (False, wlog ''log_wrong_password'' [] ''WARN'' w)
            | Password_error \<Rightarrow> Inr (False, wlog ''log_password_error'' [] ''WARN'' w)
            | Askpass_accepted \<Rightarrow> Inr (True, wlog ''log_sudo_granted'' [] ''SUCCESS'' w)
            | Terminal_unavailable \<Rightarrow>
                Inr (False, wlog ''log_no_terminal'' [] ''ERROR'' (wlog ''log_opening_terminal'' [] ''INFO'' w))
            | Terminal_accepted \<Rightarrow>
                Inr (True, wlog ''log_sudo_granted'' [] ''SUCCESS'' (wlog ''log_opening_terminal'' [] ''INFO'' w))
            | Terminal_failed \<Rightarrow>
                Inr (False, wlog ''log_sudo_failed'' [] ''ERROR'' (wlog ''log_opening_terminal'' [] ''INFO'' w))))"




subsection \<open>Notions used to state the retention property\<close>





subsection \<open>Example: an Ubuntu host without NVIDIA packages\<close>



definition fresh_window :: window where
  "fresh_window =
     \<lparr>system = ubuntu_manager, versions_dict = [], install_thread = None, sudo_password = None,
      threads = [], running = [], log_text = [], current_log_file = None,
      progress_bar = (0, False), backup_dir = [], install_history = [], trace = []\<rparr>"



definition cached_user :: user where
  "cached_user =
     \<lparr>sudo_answer = Cached, continue_old_kernel = True, continue_with_issues = True,
      install_dnf5 = False, confirm = True\<rparr>"

definition first_reading :: datetime where
  "first_reading =
     \<lparr>year = 2026, month = 11, day = 4, hour = 10, minute = 30, second = 0, microsecond = 0\<rparr>"


section \<open>The install requests of the main window\<close>

text \<open>\<open>str(i)\<close> for an integer.\<close>

definition str_int :: "int \<Rightarrow> string" where
  "str_int i = (if i < 0 then ''-'' @ str_nat (nat (- i)) else str_nat (nat i))"

text \<open>\<open>start_log\<close>: the log file is touched; a failure of \<open>touch\<close> is passed over.\<close>

definition start_log :: "host \<Rightarrow> datetime \<Rightarrow> string \<Rightarrow> window \<Rightarrow> window" where
  "start_log h now name w =
     (let file = name @ ''-'' @ strftime_stamp now @ ''.log'';
          w1 = w\<lparr>current_log_file := Some file\<rparr>
      in if open_fails h file then w1 else record_event (Wrote_file file) w1)"

text \<open>
  The kernel major number as \<open>int(os.uname().release.split(".")[0])\<close> gives it; \<open>Inl\<close>
  when \<open>uname\<close> or \<open>int\<close> raises.
\<close>

definition kernel_major :: "host \<Rightarrow> exn + int" where
  "kernel_major h =
     (case uname_release h of
        Inl e \<Rightarrow> Inl e
      | Inr release \<Rightarrow> py_int (split_first CHR ''.'' release))"

text \<open>
  \<open>check_requirements\<close>: the list of issues; the requirements hold when it is empty.
  The Polish messages are written without their diacritics.
\<close>

definition check_requirements :: "host \<Rightarrow> SystemManager \<Rightarrow> string \<Rightarrow> string list" where
  "check_requirements h self itype =
     (if itype = ''nvk'' then
        (case kernel_major h of
           Inl e \<Rightarrow> [''Nie mozna sprawdzic wersji kernela'']
         | Inr major \<Rightarrow> if major < 6 then [''Kernel '' @ kernel_release (uname_release h) @ '' - wymagany 6.0+ dla NVK''] else [])
        @ (if fst (run_command (run h) self [''modinfo'', ''nouveau''] False 300 None) \<noteq> 0
           then [''Modul nouveau nie jest dostepny''] else [])
      else if itype \<in> set [''repo'', ''run''] then
        (if distro_family self = ''fedora'' then []
         else
           (let kernel = kernel_release (uname_release h) in
            (if fst (run_command (run h) self [''dpkg'', ''-l'', ''linux-headers-'' @ kernel] False 300 None) \<noteq> 0
             then [''Brak linux-headers-'' @ kernel @ '' - wymagane do kompilacji modulow''] else [])
            @ (if fst (run_command (run h) self [''which'', ''dkms''] False 300 None) \<noteq> 0
               then [''DKMS nie jest zainstalowany - wymagany do kompilacji modulow''] else [])
            @ (if fst (run_command (run h) self [''dpkg'', ''-l'', ''build-essential''] False 300 None) \<noteq> 0
               then [''build-essential nie jest zainstalowany - wymagany do kompilacji''] else [])))
      else [])"

text \<open>\<open>_offer_install_dnf5\<close>; its return value is always \<open>True\<close> and is not used.\<close>

definition offer_install_dnf5 :: "host \<Rightarrow> user \<Rightarrow> window \<Rightarrow> window" where
  "offer_install_dnf5 h u w =
     (if distro_family (system w) \<noteq> ''fedora'' \<or> DEMO_MODE h then w
      else (case get_dnf_cmd (run h) (system w) of
              (cmd, sys1) \<Rightarrow>
                (let w1 = w\<lparr>system := sys1\<rparr> in
                 if cmd \<noteq> ''dnf'' then w1
                 else if \<not> install_dnf5 u then w1
                 else (case window_run h [''dnf'', ''install'', ''-y'', ''dnf5''] True 120
                              (wlog ''log_installing_pkg'' [''dnf5''] ''INFO'' w1) of
                         (result, w2) \<Rightarrow>
                           if fst result = 0
                           then wlog ''log_dnf5_installed'' [] ''SUCCESS''
                                  (w2\<lparr>system := (system w2)\<lparr>dnf_cmd := Some ''dnf5''\<rparr>\<rparr>)
                           else wlog ''log_dnf5_failed'' [] ''WARN'' w2))))"

text \<open>
  The common tail of the six requests: the thread object is created and stored in
  \<open>_install_thread\<close>, the progress bar is shown at 0, the thread is started.
\<close>

definition start_thread :: "string \<Rightarrow> (string \<times> pval) list \<Rightarrow> window \<Rightarrow> window" where
  "start_thread itype ps w =
     (let n = length (threads w)
      in record_event (Thread_started n)
           (w\<lparr>threads := threads w @ [\<lparr>install_type = itype, params = ps\<rparr>],
              install_thread := Some n,
              progress_bar := (0, True),
              running := running w @ [n]\<rparr>))"

definition password_param :: "window \<Rightarrow> string \<times> pval" where
  "password_param w =
     (''sudo_password'', case sudo_password w of None \<Rightarrow> PNone | Some pw \<Rightarrow> PStr pw)"

text \<open>\<open>DriverManagerWindow.install_nvk\<close>.\<close>

definition install_nvk :: "host \<Rightarrow> user \<Rightarrow> datetime \<Rightarrow> window \<Rightarrow> exn + window" where
  "install_nvk h u now w =
     (if DEMO_MODE h then Inr (wlog ''log_linux_only'' [] ''WARN'' w)
      else (case check_sudo h u w of
              Inl e \<Rightarrow> Inl e
            | Inr (False, w1) \<Rightarrow> Inr w1
            | Inr (True, w1) \<Rightarrow>
                if (case kernel_major h of Inl e \<Rightarrow> False | Inr major \<Rightarrow> major < 6)
                   \<and> \<not> continue_old_kernel u
                then Inr w1
                else
                  (let w2 = wlog ''log_checking_requirements'' [] ''INFO'' w1;
                       issues = check_requirements h (system w2) ''nvk''
                   in if issues \<noteq> [] \<and> \<not> continue_with_issues u
                      then Inr (foldl (\<lambda>v issue. wlog ''log_requirement_item'' [issue] ''WARN'' v)
                                  (wlog ''log_requirements_issues'' [] ''WARN'' w2) issues)
                      else
                        (let w3 = (if issues \<noteq> []
                                   then foldl (\<lambda>v issue. wlog ''log_requirement_item'' [issue] ''WARN'' v)
                                          (wlog ''log_requirements_issues'' [] ''WARN'' w2) issues
                                   else w2);
                             w4 = wlog ''log_starting_nvk'' [] ''INFO'' (offer_install_dnf5 h u w3);
                             w5 = snd (create_backup h now now ''nvk'' ''NVK'' w4);
                             w6 = start_log h now ''nvk'' w5
                         in Inr (start_thread ''nvk'' [password_param w6] w6)))))"

text \<open>
  \<open>install_repo\<close> and \<open>install_repo_latest\<close> differ in the version function, the name of
  the log and the \<open>latest\<close> parameter; the flag selects the second.
\<close>

definition repo_version :: "bool \<Rightarrow> subprocess \<Rightarrow> SystemManager \<Rightarrow> (exn + string) \<times> SystemManager" where
  "repo_version latest sp self =
     (if latest then highest_repo_driver_latest sp self else highest_repo_driver sp self)"

text \<open>The part of both functions after the version is known.\<close>

definition start_repo :: "bool \<Rightarrow> host \<Rightarrow> datetime \<Rightarrow> string \<Rightarrow> window \<Rightarrow> window" where
  "start_repo latest h now ver w =
     (let ver_series = (if contains ver ''.'' then split_first CHR ''.'' ver else ver);
          pkg = ''nvidia-driver-'' @ ver_series @ ''-open'';
          w1 = wlog ''log_starting_repo'' [ver] ''INFO'' w;
          w2 = snd (create_backup h now now ''repo'' ver w1);
          w3 = start_log h now (if latest then ''repo-latest'' else ''repo'') w2
      in start_thread ''repo''
           [(''version'', PStr ver), (''package'', PStr pkg),
            (''latest'', PBool latest), password_param w3] w3)"

definition install_repo_common :: "bool \<Rightarrow> host \<Rightarrow> user \<Rightarrow> datetime \<Rightarrow> window \<Rightarrow> exn + window" where
  "install_repo_common latest h u now w =
     (if DEMO_MODE h then Inr (wlog ''log_linux_only'' [] ''WARN'' w)
      else (case check_sudo h u w of
              Inl e \<Rightarrow> Inl e
            | Inr (False, w1) \<Rightarrow> Inr w1
            | Inr (True, w1) \<Rightarrow>
                (let w2 = wlog ''log_checking_requirements'' [] ''INFO'' w1;
                     issues = check_requirements h (system w2) ''repo'';
                     w3 = (if issues \<noteq> [] then wlog ''log_deps_auto_install'' [] ''INFO'' w2 else w2);
                     w4 = offer_install_dnf5 h u w3
                 in case repo_version latest (run h) (system w4) of
                      (Inl e, sys1) \<Rightarrow> Inl e
                    | (Inr ver, sys1) \<Rightarrow> Inr (start_repo latest h now ver (w4\<lparr>system := sys1\<rparr>)))))"

definition install_repo :: "host \<Rightarrow> user \<Rightarrow> datetime \<Rightarrow> window \<Rightarrow> exn + window" where
  "install_repo = install_repo_common False"

definition install_repo_latest :: "host \<Rightarrow> user \<Rightarrow> datetime \<Rightarrow> window \<Rightarrow> exn + window" where
  "install_repo_latest = install_repo_common True"

text \<open>The label dictionary of \<open>install_nvidia_run\<close>, with its default.\<close>

definition run_label :: "string \<Rightarrow> string" where
  "run_label version_type =
     (case map_of [(''production'', ''Production''), (''new_feature'', ''New Feature''),
                   (''beta'', ''Beta''), (''legacy'', ''Legacy'')] version_type of
        None \<Rightarrow> ''Production''
      | Some l \<Rightarrow> l)"

definition install_nvidia_run :: "string \<Rightarrow> host \<Rightarrow> user \<Rightarrow> datetime \<Rightarrow> window \<Rightarrow> exn + window" where
  "install_nvidia_run version_type h u now w =
     (if DEMO_MODE h then Inr (wlog ''log_linux_only'' [] ''WARN'' w)
      else (case check_sudo h u w of
              Inl e \<Rightarrow> Inl e
            | Inr (False, w1) \<Rightarrow> Inr w1
            | Inr (True, w1) \<Rightarrow>
                (let w2 = wlog ''log_checking_requirements'' [] ''INFO'' w1;
                     issues = check_requirements h (system w2) ''run'';
                     w3 = (if issues \<noteq> [] then wlog ''log_deps_auto_install'' [] ''INFO'' w2 else w2);
                     version = (case map_of (versions_dict w3) version_type of
                                  None \<Rightarrow> PRODUCTION_VERSION | Some v \<Rightarrow> v);
                     label = run_label version_type;
                     w4 = wlog ''log_starting_run'' [label, version] ''INFO'' w3;
                     w5 = snd (create_backup h now now ''run'' version w4);
                     w6 = start_log h now (''run-v2-'' @ version) w5
                 in Inr (start_thread ''run''
                           [(''version'', PStr version), (''label'', PStr label),
                            (''version_type'', PStr version_type), password_param w6] w6))))"

text \<open>\<open>uninstall_nvidia_only\<close>.\<close>

definition uninstall_nvidia_only :: "host \<Rightarrow> user \<Rightarrow> datetime \<Rightarrow> window \<Rightarrow> exn + window" where
  "uninstall_nvidia_only h u now w =
     (if DEMO_MODE h then Inr (wlog ''log_linux_only_short'' [] ''WARN'' w)
      else (case check_sudo h u w of
              Inl e \<Rightarrow> Inl e
            | Inr (False, w1) \<Rightarrow> Inr w1
            | Inr (True, w1) \<Rightarrow>
                if \<not> confirm u then Inr w1
                else
                  (let w2 = start_log h now ''uninstall-nvidia'' (wlog ''log_removing_nvidia'' [] ''INFO'' w1)
                   in Inr (start_thread ''uninstall'' [password_param w2] w2))))"

text \<open>The loop of \<open>get_installed_nvidia_driver_package\<close> on a Debian-like host.\<close>

fun dpkg_driver_package :: "string list \<Rightarrow> exn + string option" where
  "dpkg_driver_package [] = Inr None"
| "dpkg_driver_package (line # ls) =
     (if startswith line ''ii'' \<and> contains line ''nvidia-driver-'' \<and> contains line ''-open'' then
        (case py_nth (split_ws line) 1 of Inl e \<Rightarrow> Inl e | Inr pkg \<Rightarrow> Inr (Some pkg))
      else dpkg_driver_package ls)"

definition get_installed_nvidia_driver_package :: "subprocess \<Rightarrow> SystemManager \<Rightarrow> exn + string option" where
  "get_installed_nvidia_driver_package sp self =
     (if demo_mode self then Inr None
      else if distro_family self = ''fedora'' then
        (let result = run_command sp self [''rpm'', ''-q'', ''akmod-nvidia''] False 300 None in
         if fst result = 0 \<and> strip (fst (snd result)) \<noteq> [] then Inr (Some ''akmod-nvidia'')
         else Inr None)
      else
        (let result = run_command sp self [''dpkg'', ''-l''] False 300 None in
         if fst result \<noteq> 0 then Inr None
         else dpkg_driver_package (split_chr newline (fst (snd result)))))"

text \<open>\<open>upgrade_repo_driver\<close>.\<close>

definition upgrade_repo_driver :: "host \<Rightarrow> user \<Rightarrow> datetime \<Rightarrow> window \<Rightarrow> exn + window" where
  "upgrade_repo_driver h u now w =
     (if DEMO_MODE h then Inr (wlog ''log_linux_only_short'' [] ''WARN'' w)
      else (case get_installed_nvidia_driver_package (run h) (system w) of
              Inl e \<Rightarrow> Inl e
            | Inr None \<Rightarrow> Inr (wlog ''log_no_driver_repo_short'' [] ''WARN'' w)
            | Inr (Some pkg) \<Rightarrow>
                if pkg = [] then Inr (wlog ''log_no_driver_repo_short'' [] ''WARN'' w)
                else (case check_sudo h u w of
                        Inl e \<Rightarrow> Inl e
                      | Inr (False, w1) \<Rightarrow> Inr w1
                      | Inr (True, w1) \<Rightarrow>
                          (let w2 = wlog ''log_updating_pkg'' [pkg] ''INFO'' (offer_install_dnf5 h u w1);
                               w3 = start_log h now ''upgrade-repo'' w2
                           in Inr (start_thread ''upgrade_repo'' [password_param w3] w3)))))"

text \<open>The five strategy types as requests; the repository install has its two variants.\<close>

datatype request = Nvk | Repo | Repo_latest | Run string | Uninstall | Upgrade_repo

fun submit :: "request \<Rightarrow> host \<Rightarrow> user \<Rightarrow> datetime \<Rightarrow> window \<Rightarrow> exn + window" where
  "submit Nvk = install_nvk"
| "submit Repo = install_repo"
| "submit Repo_latest = install_repo_latest"
| "submit (Run version_type) = install_nvidia_run version_type"
| "submit Uninstall = uninstall_nvidia_only"
| "submit Upgrade_repo = upgrade_repo_driver"

fun request_type :: "request \<Rightarrow> string" where
  "request_type Nvk = ''nvk''"
| "request_type Repo = ''repo''"
| "request_type Repo_latest = ''repo''"
| "request_type (Run version_type) = ''run''"
| "request_type Uninstall = ''uninstall''"
| "request_type Upgrade_repo = ''upgrade_repo''"

text \<open>
  The slot connected to \<open>finished\<close>, for the thread with index \<open>n\<close>: the history entry on
  success (install types \<open>nvk\<close>, \<open>repo\<close>, \<open>run\<close>), the closing log line, and the two
  attributes set to \<open>None\<close>. An exception while the history is written is passed over.
\<close>

definition param_str :: "thread \<Rightarrow> string \<Rightarrow> string" where
  "param_str t key = (case map_of (params t) key of Some (PStr s) \<Rightarrow> s | _ \<Rightarrow> [])"

definition append_install_history :: "host \<Rightarrow> datetime \<Rightarrow> string \<Rightarrow> string \<Rightarrow> window \<Rightarrow> window" where
  "append_install_history h now itype version w =
     (if open_fails h ''install_history.json'' then w
      else w\<lparr>install_history := install_history w @ [(isoformat now, itype, version, True)]\<rparr>)"

definition on_finished :: "host \<Rightarrow> datetime \<Rightarrow> nat \<Rightarrow> int \<Rightarrow> window \<Rightarrow> window" where
  "on_finished h now n code w =
     (let t = threads w ! n;
          itype = install_type t;
          w1 = (if code = 0 \<and> itype = ''nvk'' then append_install_history h now ''nvk'' ''NVK'' w
                else if code = 0 \<and> itype \<in> set [''repo'', ''run'']
                then append_install_history h now itype (param_str t ''version'') w
                else w);
          w2 = (if itype = ''nvk'' then wlog ''log_nvk_done'' [] ''SUCCESS'' w1
                else if itype = ''repo'' then wlog ''log_install_done_restart'' [] ''SUCCESS'' w1
                else if itype = ''run'' then wlog ''log_prepare_done'' [] ''SUCCESS'' w1
                else w1)
      in w2\<lparr>install_thread := None, sudo_password := None,
             running := filter (\<lambda>m. m \<noteq> n) (running w2), progress_bar := (0, False)\<rparr>)"

text \<open>\<open>closeEvent\<close> asks before closing exactly when the stored thread is still running.\<close>

definition close_asks :: "window \<Rightarrow> bool" where
  "close_asks w = (case install_thread w of None \<Rightarrow> False | Some n \<Rightarrow> n \<in> set (running w))"

section \<open>The worker of an uninstall request\<close>

text \<open>
  The state of a running \<open>InstallationThread\<close>: the \<open>SystemManager\<close> it shares with the
  window, what it has emitted and run so far, its \<open>restart_needed\<close> flag, and the
  exception that is propagating, if any.
\<close>

record worker =
  wk_system :: SystemManager
  wk_emitted :: "event list"
  wk_restart_needed :: bool
  wk_raised :: "exn option"

definition emit :: "event list \<Rightarrow> worker \<Rightarrow> worker" where
  "emit es k = k\<lparr>wk_emitted := wk_emitted k @ es\<rparr>"

text \<open>\<open>InstallationThread.log\<close>.\<close>

definition tlog :: "string \<Rightarrow> string list \<Rightarrow> string \<Rightarrow> worker \<Rightarrow> worker" where
  "tlog key args level k = emit [Output key args level] k"

text \<open>A sequence of statements: once an exception propagates, the rest is skipped.\<close>

fun steps :: "(worker \<Rightarrow> worker) list \<Rightarrow> worker \<Rightarrow> worker" where
  "steps [] k = k"
| "steps (f # fs) k = (if wk_raised k \<noteq> None then k else steps fs (f k))"

definition thread_password :: "thread \<Rightarrow> string option" where
  "thread_password t = (case map_of (params t) ''sudo_password'' of Some (PStr pw) \<Rightarrow> Some pw | _ \<Rightarrow> None)"

text \<open>
  \<open>InstallationThread.run_cmd\<close>. Its parameter \<open>silent\<close> is not read by the body and is
  left out.
\<close>

definition run_cmd ::
  "host \<Rightarrow> thread \<Rightarrow> string list \<Rightarrow> bool \<Rightarrow> nat \<Rightarrow> bool \<Rightarrow> string option \<Rightarrow> worker
     \<Rightarrow> (int \<times> string) \<times> worker" where
  "run_cmd h t cmd sudo timeout ignore_missing_unit ignore_stderr_contains k =
     (let pw = thread_password t;
          result = run_command (run h) (wk_system k) cmd sudo timeout pw;
          rc = fst result; out = fst (snd result); err = snd (snd result);
          k1 = (if demo_mode (wk_system k) then k else emit [Ran (sudo_argv sudo pw cmd)] k)
      in if rc = 0 then ((rc, out), k1)
         else if ignore_missing_unit \<and> (contains err ''not loaded'' \<or> contains err ''does not exist'')
         then ((0, out), k1)
         else if (case ignore_stderr_contains of
                    None \<Rightarrow> False
                  | Some x \<Rightarrow> x \<noteq> [] \<and> contains err x)
         then ((0, out), k1)
         else ((rc, out),
               emit (Output ''log_error_code'' [str_int rc] ''ERROR''
                     # map (\<lambda>line. Output (''  '' @ line) [] ''ERROR'')
                         (filter (\<lambda>line. strip line \<noteq> []) (split_chr newline err))) k1))"

text \<open>A call of \<open>run_cmd\<close> whose result is not used, with the default timeout.\<close>

definition cmd_step :: "host \<Rightarrow> thread \<Rightarrow> bool \<Rightarrow> string list \<Rightarrow> worker \<Rightarrow> worker" where
  "cmd_step h t sudo argv k = snd (run_cmd h t argv sudo 300 False None k)"

definition cmd_unit :: "host \<Rightarrow> thread \<Rightarrow> string list \<Rightarrow> worker \<Rightarrow> worker" where
  "cmd_unit h t argv k = snd (run_cmd h t argv True 300 True None k)"

definition nvidia_config_files :: "string list" where
  "nvidia_config_files =
     [''/etc/modprobe.d/blacklist-nouveau.conf'', ''/etc/modprobe.d/nvidia*.conf'',
      ''/etc/modprobe.d/disable-nvidia.conf'', ''/etc/X11/xorg.conf'',
      ''/etc/X11/xorg.conf.nvidia-xconfig-original'']"

definition nvidia_config_globs :: "string list" where
  "nvidia_config_globs =
     [''rm -f /etc/ld.so.conf.d/*nvidia*'', ''rm -f /etc/X11/xorg.conf.d/*nvidia*'',
      ''rm -f /usr/share/X11/xorg.conf.d/*nvidia*'']"

definition nvidia_services :: "string list" where
  "nvidia_services =
     [''nvidia-persistenced'', ''nvidia-powerd'', ''nvidia-suspend'', ''nvidia-resume'',
      ''nvidia-hibernate'', ''nvidia-driver-install'', ''nvidia-run-install'', ''nvk-install'']"

definition clean_nvidia_artifacts :: "host \<Rightarrow> thread \<Rightarrow> worker \<Rightarrow> worker" where
  "clean_nvidia_artifacts h t =
     steps
       (map (\<lambda>cfg. cmd_step h t True [''rm'', ''-f'', cfg]) nvidia_config_files
        @ map (\<lambda>g. cmd_step h t True [''sh'', ''-c'', g]) nvidia_config_globs
        @ concat (map (\<lambda>svc.
            [cmd_unit h t [''systemctl'', ''stop'', svc @ ''.service''],
             cmd_unit h t [''systemctl'', ''disable'', svc @ ''.service''],
             cmd_step h t True [''rm'', ''-f'', ''/etc/systemd/system/'' @ svc @ ''.service'']])
            nvidia_services)
        @ [cmd_step h t True [''systemctl'', ''daemon-reload''], cmd_step h t True [''ldconfig'']])"

text \<open>\<open>purge_nvidia_packages\<close>; on a Debian-like host \<open>line.split()[1]\<close> can raise.\<close>

definition purge_nvidia_packages :: "host \<Rightarrow> thread \<Rightarrow> worker \<Rightarrow> worker" where
  "purge_nvidia_packages h t k =
     (if distro_family (wk_system k) = ''fedora'' then
        (case get_installed_nvidia_packages (run h) (wk_system k) of
           Inl e \<Rightarrow> k\<lparr>wk_raised := Some e\<rparr>
         | Inr pkgs \<Rightarrow>
             if pkgs = [] then k
             else (case get_dnf_cmd (run h) (wk_system k) of
                     (dnf, sys1) \<Rightarrow>
                       cmd_step h t True ([dnf, ''remove'', ''-y''] @ pkgs) (k\<lparr>wk_system := sys1\<rparr>)))
      else
        (case run_cmd h t [''dpkg'', ''-l''] False 300 False None k of
           ((rc, out), k1) \<Rightarrow>
             if rc = 0 then
               (case dpkg_nvidia_packages (split_chr newline out) of
                  Inl e \<Rightarrow> k1\<lparr>wk_raised := Some e\<rparr>
                | Inr pkgs \<Rightarrow>
                    if pkgs = [] then k1
                    else steps
                           [cmd_step h t True ([''apt-get'', ''remove'', ''--purge'', ''-y''] @ pkgs),
                            cmd_step h t True [''apt-get'', ''autoremove'', ''--purge'', ''-y'']] k1)
             else k1))"

text \<open>The loop of \<open>remove_dkms_modules\<close> over the lines of \<open>dkms status\<close>.\<close>

definition dkms_entries :: "string \<Rightarrow> string list" where
  "dkms_entries out =
     filter (\<lambda>entry. entry \<noteq> [])
       (map (\<lambda>line. strip (split_first CHR '','' line))
          (filter (\<lambda>line. contains (lower line) ''nvidia'') (split_chr newline out)))"

definition remove_dkms_modules :: "host \<Rightarrow> thread \<Rightarrow> worker \<Rightarrow> worker" where
  "remove_dkms_modules h t k =
     (let kernel = kernel_release (uname_release h) in
      if distro_family (wk_system k) = ''fedora'' then
        steps [cmd_step h t True [''find'', ''/lib/modules/'' @ kernel, ''-name'', ''nvidia*.ko*'', ''-delete''],
               cmd_step h t True [''depmod'', ''-a'']] k
      else
        (case run_cmd h t [''dkms'', ''status''] False 300 False None k of
           ((rc, out), k1) \<Rightarrow>
             steps
               ((if rc = 0
                 then map (\<lambda>entry k2. snd (run_cmd h t [''dkms'', ''remove'', entry, ''--all''] True 300 False
                                              (Some ''not located in the DKMS tree'') k2))
                        (dkms_entries out)
                 else [])
                @ [cmd_step h t True [''rm'', ''-rf'', ''/var/lib/dkms/nvidia*'', ''/usr/src/nvidia*'', ''/usr/src/NVIDIA*''],
                   cmd_step h t True [''find'', ''/lib/modules/'' @ kernel, ''-name'', ''nvidia*.ko*'',
                                 ''!'', ''-path'', ''*/updates/dkms/*'', ''-delete''],
                   cmd_step h t True [''depmod'', ''-a'']]) k1))"

definition remove_nvidia_configs :: "host \<Rightarrow> thread \<Rightarrow> worker \<Rightarrow> worker" where
  "remove_nvidia_configs h t =
     steps
       (map (\<lambda>cfg. cmd_step h t True [''rm'', ''-f'', cfg])
          [''/etc/modprobe.d/nvidia*.conf'', ''/etc/modprobe.d/blacklist-nouveau.conf'',
           ''/etc/modprobe.d/disable-nvidia.conf'', ''/etc/X11/xorg.conf'',
           ''/etc/X11/xorg.conf.nvidia-xconfig-original'']
        @ map (\<lambda>g. cmd_step h t True [''sh'', ''-c'', g]) nvidia_config_globs)"

definition library_paths_rf :: "string list" where
  "library_paths_rf =
     [''/usr/lib/x86_64-linux-gnu/libnvidia*'', ''/usr/lib/i386-linux-gnu/libnvidia*'',
      ''/usr/lib32/libnvidia*'', ''/usr/lib/nvidia*'', ''/usr/lib32/nvidia*'',
      ''/lib/x86_64-linux-gnu/libnvidia*'', ''/lib/i386-linux-gnu/libnvidia*'']"

definition library_paths_f :: "string list" where
  "library_paths_f =
     [''/lib/x86_64-linux-gnu/*nvidia*.so*'', ''/lib/i386-linux-gnu/*nvidia*.so*'',
      ''/usr/lib/x86_64-linux-gnu/*nvidia*.so*'', ''/usr/lib/i386-linux-gnu/*nvidia*.so*'',
      ''/lib/x86_64-linux-gnu/libvdpau_nvidia*'', ''/lib/i386-linux-gnu/libvdpau_nvidia*'',
      ''/usr/lib/x86_64-linux-gnu/vdpau/libvdpau_nvidia*'',
      ''/usr/lib/i386-linux-gnu/vdpau/libvdpau_nvidia*'',
      ''/lib/libGL.so*'', ''/lib/libEGL.so*'', ''/lib/libGLX.so*'', ''/lib/libGLES*.so*'',
      ''/usr/bin/nvidia*'', ''/usr/sbin/nvidia*'']"

definition remove_nvidia_libraries :: "host \<Rightarrow> thread \<Rightarrow> worker \<Rightarrow> worker" where
  "remove_nvidia_libraries h t k =
     (let fedora = (distro_family (wk_system k) = ''fedora'');
          paths_rf = library_paths_rf
                     @ (if fedora then [''/usr/lib64/libnvidia*'', ''/usr/lib64/nvidia*''] else []);
          paths_f = library_paths_f
                    @ (if fedora then [''/usr/lib64/*nvidia*.so*'', ''/usr/lib64/libvdpau_nvidia*''] else [])
      in steps
           (map (\<lambda>p. cmd_step h t True [''rm'', ''-rf'', p]) paths_rf
            @ map (\<lambda>p. cmd_step h t True [''sh'', ''-c'', ''rm -f '' @ p]) paths_f
            @ [cmd_step h t True [''ldconfig'']]) k)"

definition verify_nvidia_removal :: "host \<Rightarrow> thread \<Rightarrow> worker \<Rightarrow> bool \<times> worker" where
  "verify_nvidia_removal h t k =
     (case run_cmd h t [''ldconfig'', ''-p''] False 300 False None (cmd_step h t True [''ldconfig''] k) of
        ((rc, out), k1) \<Rightarrow>
          if rc = 0 \<and> contains (lower out) ''nvidia''
          then (False, tlog ''log_ldconfig_warning'' [] ''WARN'' k1)
          else (True, k1))"

definition rebuild_initramfs :: "host \<Rightarrow> thread \<Rightarrow> worker \<Rightarrow> worker" where
  "rebuild_initramfs h t k =
     (let k1 = tlog ''log_updating_initramfs'' [] ''INFO'' k in
      if distro_family (wk_system k1) = ''fedora'' then cmd_step h t True [''dracut'', ''--force''] k1
      else cmd_step h t True [''update-initramfs'', ''-u'', ''-k'', ''all''] k1)"

text \<open>
  \<open>configure_nouveau_for_nvk\<close>. Writing and unlinking the temporary file can raise; the
  \<open>grep\<close> goes through \<open>SystemManager.run_command\<close> without a password.
\<close>

definition configure_nouveau_for_nvk :: "host \<Rightarrow> thread \<Rightarrow> worker \<Rightarrow> worker" where
  "configure_nouveau_for_nvk h t =
     steps
       [cmd_step h t True [''rm'', ''-f'', ''/etc/modprobe.d/blacklist-nouveau.conf''],
        (\<lambda>k. if open_fails h ''/tmp/nouveau_conf.txt'' then k\<lparr>wk_raised := Some OSError\<rparr>
              else emit [Wrote_file ''/tmp/nouveau_conf.txt''] k),
        cmd_step h t True [''cp'', ''/tmp/nouveau_conf.txt'', ''/etc/modprobe.d/nouveau.conf''],
        (\<lambda>k. if unlink_fails h ''/tmp/nouveau_conf.txt'' then k\<lparr>wk_raised := Some OSError\<rparr>
              else emit [Removed_file ''/tmp/nouveau_conf.txt''] k),
        (\<lambda>k. if file_exists h ''/etc/initramfs-tools/modules'' then
                (let rc = fst (run_command (run h) (wk_system k)
                                 [''grep'', ''-q'', ''^nouveau$'', ''/etc/initramfs-tools/modules''] False 300 None);
                     k1 = (if demo_mode (wk_system k) then k
                           else emit [Ran [''grep'', ''-q'', ''^nouveau$'', ''/etc/initramfs-tools/modules'']] k)
                 in if rc \<noteq> 0
                    then cmd_step h t True [''sh'', ''-c'', ''echo nouveau >> /etc/initramfs-tools/modules''] k1
                    else k1)
              else k),
        (\<lambda>k. if distro_family (wk_system k) \<noteq> ''fedora'' then rebuild_initramfs h t k else k)]"

text \<open>\<open>InstallationThread.install_uninstall\<close>.\<close>

definition install_uninstall :: "host \<Rightarrow> thread \<Rightarrow> worker \<Rightarrow> worker" where
  "install_uninstall h t k =
     (if demo_mode (wk_system k)
      then emit [Output ''log_linux_only_short'' [] ''WARN'', Finished 0] k
      else steps
             [tlog ''log_remove_nvidia_header'' [] ''INFO'',
              emit [Progress 15],
              tlog ''log_cleaning_nvidia'' [] ''INFO'',
              clean_nvidia_artifacts h t,
              purge_nvidia_packages h t,
              remove_dkms_modules h t,
              remove_nvidia_configs h t,
              remove_nvidia_libraries h t,
              emit [Progress 50],
              (\<lambda>k1. case verify_nvidia_removal h t k1 of
                       (ok, k2) \<Rightarrow> if ok then k2 else tlog ''log_nvidia_libs_visible'' [] ''WARN'' k2),
              tlog ''log_config_nouveau'' [] ''INFO'',
              configure_nouveau_for_nvk h t,
              rebuild_initramfs h t,
              emit [Progress 100],
              tlog ''log_nvidia_removed'' [] ''SUCCESS'',
              (\<lambda>k1. k1\<lparr>wk_restart_needed := True\<rparr>),
              emit [Ask_restart],
              emit [Finished 0]] k)"

text \<open>
  \<open>InstallationThread.run\<close> for the install type \<open>uninstall\<close>: the body, and the handler
  of \<open>except Exception\<close>, which reports the error, saves the report when it can, and
  emits \<open>finished\<close> with 1.
\<close>

definition run_uninstall :: "host \<Rightarrow> thread \<Rightarrow> SystemManager \<Rightarrow> worker" where
  "run_uninstall h t self =
     (let k = install_uninstall h t
                \<lparr>wk_system = self, wk_emitted = [], wk_restart_needed = False, wk_raised = None\<rparr>
      in case wk_raised k of
           None \<Rightarrow> k
         | Some e \<Rightarrow>
             emit ([Output ''log_error_exception'' [str_exn e] ''ERROR'']
                   @ (if open_fails h ''error-report.json'' then []
                      else [Wrote_file ''error-report.json'',
                            Output ''log_error_report_saved'' [''error-report.json''] ''INFO''])
                   @ [Finished 1])
               (k\<lparr>wk_raised := None\<rparr>))"

text \<open>
  Everything that happens for one request, in order: the effects of the window, then,
  when a thread was started for an uninstall, what that thread runs and emits.
\<close>

definition uninstall_history :: "host \<Rightarrow> user \<Rightarrow> datetime \<Rightarrow> window \<Rightarrow> event list" where
  "uninstall_history h u now w =
     (case uninstall_nvidia_only h u now w of
        Inl e \<Rightarrow> trace w
      | Inr w1 \<Rightarrow>
          (case install_thread w1 of
             None \<Rightarrow> trace w1
           | Some n \<Rightarrow>
               if length (threads w1) = Suc (length (threads w))
               then trace w1 @ wk_emitted (run_uninstall h (threads w1 ! n) (system w1))
               else trace w1))"

definition is_backup_write :: "event \<Rightarrow> bool" where
  "is_backup_write e = (case e of Wrote_backup n \<Rightarrow> True | _ \<Rightarrow> False)"

subsection \<open>Example: a host with an active proprietary driver\<close>

definition nvidia_commands :: subprocess where
  "nvidia_commands argv inp t =
     (if argv = [''nvidia-smi'', ''--query-gpu=driver_version'', ''--format=csv,noheader'']
        then Inr (CompletedProcess 0 (Some (''550.90.07'' @ [newline])) (Some []))
      else if argv = [''dpkg'', ''-l'']
        then Inr (CompletedProcess 0
               (Some (''ii  bash  5.2  amd64  GNU Bourne Again SHell'' @ [newline] @
                      ''ii  nvidia-driver-550-open  550.90.07-0ubuntu1  amd64  NVIDIA driver'' @ [newline]))
               (Some []))
      else if argv = [''dkms'', ''status'']
        then Inr (CompletedProcess 0 (Some (''nvidia/550.90.07, 6.8.0-45-generic, x86_64: installed'' @ [newline])) (Some []))
      else Inr (CompletedProcess 0 (Some []) (Some [])))"

definition nvidia_host :: host where
  "nvidia_host =
     \<lparr>DEMO_MODE = False, IS_LINUX = True, run = nvidia_commands,
      proc_modules = Inr ''nvidia 1234 0'', uname_release = Inr ''6.8.0-45-generic'',
      open_fails = (\<lambda>n. False), unlink_fails = (\<lambda>n. False), file_exists = (\<lambda>n. False)\<rparr>"

definition second_reading :: datetime where
  "second_reading =
     \<lparr>year = 2026, month = 11, day = 4, hour = 10, minute = 30, second = 1, microsecond = 0\<rparr>"

section \<open>Notions used to state the properties of the requests\<close>

text \<open>The branches of \<open>check_sudo\<close> that return \<open>True\<close>.\<close>

fun grants :: "sudo_path \<Rightarrow> bool" where
  "grants Not_started = False"
| "grants Not_linux = True"
| "grants Cached = True"
| "grants Refused = False"
| "grants (Password_accepted pw) = True"
| "grants Password_rejected = False"
| "grants Password_error = False"
| "grants Askpass_accepted = True"
| "grants Terminal_unavailable = False"
| "grants Terminal_accepted = True"
| "grants Terminal_failed = False"

definition sudo_granted :: "host \<Rightarrow> user \<Rightarrow> bool" where
  "sudo_granted h u = (\<not> IS_LINUX h \<or> grants (sudo_answer u))"

text \<open>
  The conditions under which a request goes on to start its worker, read off the early
  returns of the six functions: the demo flag, the outcome of \<open>check_sudo\<close>, the answers
  to the dialogs and, for an upgrade, an installed repository package.
\<close>

definition accepted :: "request \<Rightarrow> host \<Rightarrow> user \<Rightarrow> SystemManager \<Rightarrow> bool" where
  "accepted req h u self =
     (\<not> DEMO_MODE h \<and> sudo_granted h u \<and>
      (case req of
         Nvk \<Rightarrow>
           ((case kernel_major h of Inl e \<Rightarrow> True | Inr major \<Rightarrow> 6 \<le> major) \<or> continue_old_kernel u)
           \<and> (check_requirements h self ''nvk'' = [] \<or> continue_with_issues u)
       | Uninstall \<Rightarrow> confirm u
       | Upgrade_repo \<Rightarrow>
           (case get_installed_nvidia_driver_package (run h) self of
              Inr (Some pkg) \<Rightarrow> pkg \<noteq> []
            | _ \<Rightarrow> False)
       | _ \<Rightarrow> True))"

subsection \<open>Example: a window with a repository install under way\<close>

text \<open>
  The window after \<open>install_repo\<close> has started its thread on the host above; no
  \<open>finished\<close> signal has been delivered to it.
\<close>

definition window_after_install_repo :: window where
  "window_after_install_repo =
     (case install_repo nvidia_host cached_user first_reading fresh_window of
        Inl e \<Rightarrow> fresh_window
      | Inr w \<Rightarrow> w)"

section \<open>Properties of the CommandExecutor\<close>

lemma run_command_exc_Inr: "\<exists>r. run_command_exc sp self cmd sudo timeout pw = Inr r"
  by (auto simp: run_command_exc_def split: sum.splits exn.splits)

lemma run_command_eq: "run_command_exc sp self cmd sudo timeout pw = Inr (run_command sp self cmd sudo timeout pw)"
  using run_command_exc_Inr [of sp self cmd sudo timeout pw]
  by (auto simp: run_command_def)

text \<open>
  Claim C7. No exception leaves \<open>run_command\<close>: every invocation returns a result.
  When \<open>subprocess.run\<close> raises \<open>TimeoutExpired\<close> the result is the sentinel
  \<open>(124, "", "Timeout")\<close>; every other exception gives exit code 1, so the timeout code
  differs from the ordinary-failure code and from the success code 0.
\<close>

theorem run_command_never_raises:
  "(\<exists>r. run_command_exc sp self cmd sudo timeout pw = Inr r)
   \<and> (\<not> demo_mode self
        \<and> sp (sudo_argv sudo pw cmd) (sudo_input sudo pw) timeout = Inl TimeoutExpired
      \<longrightarrow> run_command_exc sp self cmd sudo timeout pw = Inr (124, [], ''Timeout''))
   \<and> (\<forall>e. \<not> demo_mode self \<and> e \<noteq> TimeoutExpired
        \<and> sp (sudo_argv sudo pw cmd) (sudo_input sudo pw) timeout = Inl e
      \<longrightarrow> run_command_exc sp self cmd sudo timeout pw = Inr (1, [], str_exn e)
          \<and> fst (1, [] :: string, str_exn e) \<noteq> (124 :: int))
   \<and> (124 :: int) \<noteq> 0"
proof -
  have a: "\<exists>r. run_command_exc sp self cmd sudo timeout pw = Inr r"
    by (rule run_command_exc_Inr)
  have b: "\<not> demo_mode self
        \<and> sp (sudo_argv sudo pw cmd) (sudo_input sudo pw) timeout = Inl TimeoutExpired
      \<longrightarrow> run_command_exc sp self cmd sudo timeout pw = Inr (124, [], ''Timeout'')"
    by (simp add: run_command_exc_def run_command_try_def)
  have c: "\<forall>e. \<not> demo_mode self \<and> e \<noteq> TimeoutExpired
        \<and> sp (sudo_argv sudo pw cmd) (sudo_input sudo pw) timeout = Inl e
      \<longrightarrow> run_command_exc sp self cmd sudo timeout pw = Inr (1, [], str_exn e)
          \<and> fst (1, [] :: string, str_exn e) \<noteq> (124 :: int)"
    by (auto simp: run_command_exc_def run_command_try_def split: exn.splits)
  from a b c show ?thesis by simp
qed

theorem run_command_never_raises_witness:
  "run_command_exc always_timeout ubuntu_manager [''apt-get'', ''update''] True 300 (Some ''pw'')
     = Inr (124, [], ''Timeout'')"
proof -
  have d: "\<not> demo_mode ubuntu_manager" by (simp add: ubuntu_manager_def)
  have t: "always_timeout (sudo_argv True (Some ''pw'') [''apt-get'', ''update''])
             (sudo_input True (Some ''pw'')) 300 = Inl TimeoutExpired"
    by (simp add: always_timeout_def)
  from run_command_never_raises [of always_timeout ubuntu_manager "[''apt-get'', ''update'']" True 300 "Some ''pw''"]
  have "\<not> demo_mode ubuntu_manager
        \<and> always_timeout (sudo_argv True (Some ''pw'') [''apt-get'', ''update''])
             (sudo_input True (Some ''pw'')) 300 = Inl TimeoutExpired
      \<longrightarrow> run_command_exc always_timeout ubuntu_manager [''apt-get'', ''update''] True 300 (Some ''pw'')
            = Inr (124, [], ''Timeout'')"
    by blast
  with d t show ?thesis by blast
qed

section \<open>Properties of the repository series scan\<close>

lemma split_chr_not_Nil: "split_chr c s \<noteq> []"
  by (induction s) (auto split: list.splits)

lemma split_chr_two: "c \<in> set s \<Longrightarrow> 2 \<le> length (split_chr c s)"
proof (induction s)
  case Nil
  then show ?case by simp
next
  case (Cons x xs)
  show ?case
  proof (cases "x = c")
    case True
    have "split_chr c xs \<noteq> []" by (rule split_chr_not_Nil)
    then have "1 \<le> length (split_chr c xs)" by (cases "split_chr c xs") auto
    with True show ?thesis by simp
  next
    case False
    with Cons.prems have "c \<in> set xs" by auto
    then have "2 \<le> length (split_chr c xs)" by (rule Cons.IH)
    with False show ?thesis by (cases "split_chr c xs") auto
  qed
qed

lemma startswith_set: "startswith s p \<Longrightarrow> set p \<subseteq> set s"
  unfolding startswith_def by (metis set_take_subset)

text \<open>The index 1 in \<open>line.split(":")[1]\<close> always exists on a line that starts with \<open>Version:\<close>.\<close>

lemma version_of_line_Inr:
  assumes "startswith line ''Version:''"
  shows "\<exists>v. version_of_line line = Inr v"
proof -
  from assms have "set ''Version:'' \<subseteq> set line" by (rule startswith_set)
  then have "CHR '':'' \<in> set line" by auto
  then have "2 \<le> length (split_chr CHR '':'' line)" by (rule split_chr_two)
  then show ?thesis by (simp add: version_of_line_def py_nth_def)
qed

lemma first_version_line_Inr: "\<exists>r. first_version_line ls = Inr r"
proof (induction ls)
  case Nil
  show ?case by simp
next
  case (Cons line ls)
  show ?case
  proof (cases "startswith line ''Version:''")
    case True
    then obtain v where "version_of_line line = Inr v" using version_of_line_Inr by blast
    with True show ?thesis by simp
  next
    case False
    with Cons.IH show ?thesis by simp
  qed
qed

text \<open>The list \<open>available\<close> holds exactly the series that resolve, in scan order.\<close>

lemma scan_available_eq:
  "scan_available sp self vs =
     Inr (map (\<lambda>v. (v, the (series_version sp self v)))
            (filter (\<lambda>v. series_version sp self v \<noteq> None) vs))"
proof (induction vs)
  case Nil
  show ?case by simp
next
  case (Cons v vs)
  obtain r where r: "first_version_line (split_chr newline (fst (snd (apt_cache_show sp self v)))) = Inr r"
    using first_version_line_Inr by blast
  show ?case using Cons.IH r
    by (cases r) (simp_all add: series_version_def Let_def)
qed

lemma scan_latest_eq:
  "scan_latest sp self vs =
     Inr (case filter (\<lambda>v. series_version sp self v \<noteq> None) vs of
            [] \<Rightarrow> ''580''
          | v # _ \<Rightarrow> shown_version (v, the (series_version sp self v)))"
proof (induction vs)
  case Nil
  show ?case by simp
next
  case (Cons v vs)
  obtain r where r: "first_version_line (split_chr newline (fst (snd (apt_cache_show sp self v)))) = Inr r"
    using first_version_line_Inr by blast
  show ?case using Cons.IH r
    by (cases r) (simp_all add: series_version_def Let_def shown_version_def)
qed

lemma ubuntu_manager_scans:
  "\<not> demo_mode ubuntu_manager" "distro_family ubuntu_manager \<noteq> ''fedora''"
  by (simp_all add: ubuntu_manager_def)

text \<open>
  Claim C4. On the scanning path (not the demo mode, not the Fedora family), when at least
  two series of the fixed descending list resolve in the package cache,
  \<open>highest_repo_driver\<close> returns the version of the second series found and
  \<open>highest_repo_driver_latest\<close> the version of the first series found (the series number
  itself stands in for a version without a dot). Neither call changes the manager.
\<close>

theorem repo_scan_second_and_first:
  assumes "\<not> demo_mode self" and "distro_family self \<noteq> ''fedora''"
    and "found_series sp self = a # b # rest"
  shows "highest_repo_driver sp self
           = (Inr (shown_version (b, the (series_version sp self b))), self)
       \<and> highest_repo_driver_latest sp self
           = (Inr (shown_version (a, the (series_version sp self a))), self)"
  using assms
  by (simp add: highest_repo_driver_def highest_repo_driver_latest_def
      scan_available_eq scan_latest_eq found_series_def)

text \<open>The spec's example: only 600 and 580 resolve; previous is 580, latest is 600.\<close>

theorem repo_scan_second_and_first_witness:
  "found_series cache_600_580 ubuntu_manager = [600, 580]
   \<and> highest_repo_driver cache_600_580 ubuntu_manager = (Inr ''580.95.05'', ubuntu_manager)
   \<and> highest_repo_driver_latest cache_600_580 ubuntu_manager = (Inr ''600.12.03'', ubuntu_manager)"
proof -
  have f: "found_series cache_600_580 ubuntu_manager = [600, 580]" by code_simp
  have v580: "series_version cache_600_580 ubuntu_manager 580 = Some ''580.95.05''" by code_simp
  have v600: "series_version cache_600_580 ubuntu_manager 600 = Some ''600.12.03''" by code_simp
  have s580: "shown_version (580, ''580.95.05'') = ''580.95.05''" by code_simp
  have s600: "shown_version (600, ''600.12.03'') = ''600.12.03''" by code_simp
  from repo_scan_second_and_first [OF ubuntu_manager_scans f] f show ?thesis
    by (simp add: v580 v600 s580 s600)
qed

text \<open>
  Claim C10. On the scanning path, when no series resolves both functions return the
  constant \<open>"580"\<close>; when exactly one series resolves both return the version of that one
  series, so the previous recommendation equals the latest one.
\<close>

theorem repo_scan_edge_cases:
  assumes "\<not> demo_mode self" and "distro_family self \<noteq> ''fedora''"
  shows "(found_series sp self = [] \<longrightarrow>
            highest_repo_driver sp self = (Inr ''580'', self)
          \<and> highest_repo_driver_latest sp self = (Inr ''580'', self))
       \<and> (\<forall>a. found_series sp self = [a] \<longrightarrow>
            highest_repo_driver sp self
              = (Inr (shown_version (a, the (series_version sp self a))), self)
          \<and> highest_repo_driver_latest sp self = highest_repo_driver sp self)"
  using assms
  by (simp add: highest_repo_driver_def highest_repo_driver_latest_def
      scan_available_eq scan_latest_eq found_series_def)

theorem repo_scan_edge_cases_witness:
  "highest_repo_driver cache_empty ubuntu_manager = (Inr ''580'', ubuntu_manager)
   \<and> highest_repo_driver_latest cache_empty ubuntu_manager = (Inr ''580'', ubuntu_manager)
   \<and> highest_repo_driver cache_550 ubuntu_manager = (Inr ''550.163.01'', ubuntu_manager)
   \<and> highest_repo_driver_latest cache_550 ubuntu_manager = (Inr ''550.163.01'', ubuntu_manager)"
proof -
  have e: "found_series cache_empty ubuntu_manager = []" by code_simp
  have f: "found_series cache_550 ubuntu_manager = [550]" by code_simp
  have v: "series_version cache_550 ubuntu_manager 550 = Some ''550.163.01''" by code_simp
  have s: "shown_version (550, ''550.163.01'') = ''550.163.01''" by code_simp
  from repo_scan_edge_cases [OF ubuntu_manager_scans, of cache_empty] e
  have 1: "highest_repo_driver cache_empty ubuntu_manager = (Inr ''580'', ubuntu_manager)
          \<and> highest_repo_driver_latest cache_empty ubuntu_manager = (Inr ''580'', ubuntu_manager)"
    by blast
  from repo_scan_edge_cases [OF ubuntu_manager_scans, of cache_550] f
  have 2: "highest_repo_driver cache_550 ubuntu_manager
              = (Inr (shown_version (550, the (series_version cache_550 ubuntu_manager 550))), ubuntu_manager)
          \<and> highest_repo_driver_latest cache_550 ubuntu_manager = highest_repo_driver cache_550 ubuntu_manager"
    by blast
  from 1 2 show ?thesis by (simp add: v s)
qed

section \<open>Properties of the distribution probe\<close>

lemma value_of_line_Inr:
  assumes "CHR ''='' \<in> set line"
  shows "value_of_line line = Inr (id_of_line line)"
proof -
  from assms have "2 \<le> length (split_chr CHR ''='' line)" by (rule split_chr_two)
  then show ?thesis by (simp add: value_of_line_def py_nth_def id_of_line_def)
qed

lemma startswith_ID: "startswith line ''ID='' \<Longrightarrow> CHR ''='' \<in> set line"
  using startswith_set [of line "''ID=''"] by auto

lemma startswith_NAME: "startswith line ''NAME='' \<Longrightarrow> CHR ''='' \<in> set line"
  using startswith_set [of line "''NAME=''"] by auto

text \<open>
  The loop never raises, keeps the demo flag, and leaves the family of the last \<open>ID=\<close>
  line (the family it started with when there is none).
\<close>

lemma detect_lines_family:
  "\<exists>self1. detect_lines self ls = Inr self1 \<and> demo_mode self1 = demo_mode self \<and>
     distro_family self1 =
       (case filter (\<lambda>l. startswith l ''ID='') ls of
          [] \<Rightarrow> distro_family self
        | ids \<Rightarrow> family_of_id (id_of_line (last ids)))"
proof (induction ls arbitrary: self)
  case Nil
  show ?case by simp
next
  case (Cons line ls)
  show ?case
  proof (cases "startswith line ''ID=''")
    case True
    then have v: "value_of_line line = Inr (id_of_line line)"
      by (simp add: value_of_line_Inr startswith_ID)
    from Cons.IH [of "self\<lparr>distro_family := family_of_id (id_of_line line)\<rparr>"] True v
    show ?thesis by (auto split: list.splits)
  next
    case notid: False
    show ?thesis
    proof (cases "startswith line ''NAME=''")
      case True
      then have v: "value_of_line line = Inr (id_of_line line)"
        by (simp add: value_of_line_Inr startswith_NAME)
      from Cons.IH [of "self\<lparr>distro_name := id_of_line line\<rparr>"] True notid v
      show ?thesis by (auto split: list.splits)
    next
      case False
      with notid Cons.IH [of self] show ?thesis by auto
    qed
  qed
qed

lemma family_of_unmapped_id: "distro_id \<notin> set mapped_ids \<Longrightarrow> family_of_id distro_id = ''other''"
  by (simp add: family_of_id_def mapped_ids_def)

lemma detect_distro_unmapped:
  assumes "\<not> demo_mode self"
    and "filter (\<lambda>l. startswith l ''ID='') (split_chr newline content) = ids"
    and "ids \<noteq> []"
    and "id_of_line (last ids) \<notin> set mapped_ids"
  shows "distro_family (detect_distro (Inr content) self) = ''other''
       \<and> \<not> demo_mode (detect_distro (Inr content) self)"
proof -
  obtain self1 where s: "detect_lines self (split_chr newline content) = Inr self1"
    and d: "demo_mode self1 = demo_mode self"
    and f: "distro_family self1 =
       (case filter (\<lambda>l. startswith l ''ID='') (split_chr newline content) of
          [] \<Rightarrow> distro_family self
        | ids \<Rightarrow> family_of_id (id_of_line (last ids)))"
    using detect_lines_family [of self "split_chr newline content"] by blast
  from f assms(2,3) have "distro_family self1 = family_of_id (id_of_line (last ids))"
    by (cases ids) simp_all
  with assms(4) have "distro_family self1 = ''other''"
    by (simp add: family_of_unmapped_id)
  with s d assms(1) show ?thesis by (simp add: detect_distro_def)
qed

lemma missing_deps_non_fedora:
  assumes "\<not> demo_mode self" and "distro_family self \<noteq> ''fedora''"
    and "itype = ''repo'' \<or> itype = ''run''"
  shows "get_missing_dependency_packages sp uname self itype =
           (filter (\<lambda>p. fst (run_command sp self [''dpkg'', ''-l'', p] False 300 None) \<noteq> 0)
              [''linux-headers-'' @ kernel_release uname, ''dkms'', ''build-essential''],
            [[''dpkg'', ''-l'', ''linux-headers-'' @ kernel_release uname],
             [''dpkg'', ''-l'', ''dkms''],
             [''dpkg'', ''-l'', ''build-essential'']])"
  using assms
  by (auto simp: get_missing_dependency_packages_def query_missing_def Let_def)

text \<open>
  Claim C9, as the code has it. An identifier outside the static mapping classifies as
  \<open>"other"\<close>. The dependency check does not look at that family: outside the demo mode
  and for the install types \<open>repo\<close> and \<open>run\<close> it runs the three \<open>dpkg -l\<close> queries of
  every family that is not \<open>fedora\<close> and reports each package whose query does not exit
  with 0. It runs no query and reports nothing only in the demo mode or for another
  install type.
\<close>

theorem other_family_runs_dpkg_checks:
  assumes "\<not> demo_mode self"
    and "filter (\<lambda>l. startswith l ''ID='') (split_chr newline content) = ids"
    and "ids \<noteq> []"
    and "id_of_line (last ids) \<notin> set mapped_ids"
  shows "distro_family (detect_distro (Inr content) self) = ''other''
       \<and> (\<forall>itype. itype = ''repo'' \<or> itype = ''run'' \<longrightarrow>
            get_missing_dependency_packages sp uname (detect_distro (Inr content) self) itype =
              (filter (\<lambda>p. fst (run_command sp (detect_distro (Inr content) self)
                                   [''dpkg'', ''-l'', p] False 300 None) \<noteq> 0)
                 [''linux-headers-'' @ kernel_release uname, ''dkms'', ''build-essential''],
               [[''dpkg'', ''-l'', ''linux-headers-'' @ kernel_release uname],
                [''dpkg'', ''-l'', ''dkms''],
                [''dpkg'', ''-l'', ''build-essential'']]))
       \<and> (\<forall>itype. itype \<noteq> ''repo'' \<and> itype \<noteq> ''run'' \<longrightarrow>
            get_missing_dependency_packages sp uname (detect_distro (Inr content) self) itype
              = ([], []))"
proof -
  from detect_distro_unmapped [OF assms]
  have o: "distro_family (detect_distro (Inr content) self) = ''other''"
    and d: "\<not> demo_mode (detect_distro (Inr content) self)" by simp_all
  from o have nf: "distro_family (detect_distro (Inr content) self) \<noteq> ''fedora''" by simp
  have r: "\<forall>itype. itype = ''repo'' \<or> itype = ''run'' \<longrightarrow>
            get_missing_dependency_packages sp uname (detect_distro (Inr content) self) itype =
              (filter (\<lambda>p. fst (run_command sp (detect_distro (Inr content) self)
                                   [''dpkg'', ''-l'', p] False 300 None) \<noteq> 0)
                 [''linux-headers-'' @ kernel_release uname, ''dkms'', ''build-essential''],
               [[''dpkg'', ''-l'', ''linux-headers-'' @ kernel_release uname],
                [''dpkg'', ''-l'', ''dkms''],
                [''dpkg'', ''-l'', ''build-essential'']])"
    using missing_deps_non_fedora [OF d nf] by blast
  have n: "\<forall>itype. itype \<noteq> ''repo'' \<and> itype \<noteq> ''run'' \<longrightarrow>
            get_missing_dependency_packages sp uname (detect_distro (Inr content) self) itype
              = ([], [])"
    by (simp add: get_missing_dependency_packages_def)
  from o r n show ?thesis by blast
qed

theorem other_family_runs_dpkg_checks_witness:
  "distro_family (detect_distro (Inr arch_os_release) (new_manager False ''Linux-x86_64'')) = ''other''
   \<and> snd (get_missing_dependency_packages no_such_program (Inr ''6.8.0'')
        (detect_distro (Inr arch_os_release) (new_manager False ''Linux-x86_64'')) ''run'')
      = [[''dpkg'', ''-l'', ''linux-headers-6.8.0''], [''dpkg'', ''-l'', ''dkms''],
         [''dpkg'', ''-l'', ''build-essential'']]"
proof -
  have 1: "\<not> demo_mode (new_manager False ''Linux-x86_64'')" by (simp add: new_manager_def)
  have 2: "filter (\<lambda>l. startswith l ''ID='') (split_chr newline arch_os_release) = [''ID=arch'']"
    by code_simp
  have 3: "[''ID=arch''] \<noteq> []" by simp
  have 4: "id_of_line (last [''ID=arch'']) \<notin> set mapped_ids" by code_simp
  have k: "kernel_release (Inr ''6.8.0'') = ''6.8.0''" by (simp add: kernel_release_def)
  from other_family_runs_dpkg_checks [OF 1 2 3 4, of no_such_program "Inr ''6.8.0''"]
  show ?thesis by (simp add: k)
qed

text \<open>
  The claim as stated fails: on a host whose identifier \<open>arch\<close> is unmapped the family is
  \<open>"other"\<close>, and the dependency check for \<open>repo\<close> still runs three package-manager
  queries and reports three packages missing.
\<close>

theorem other_family_no_checks_counterexample:
  "distro_family (detect_distro (Inr arch_os_release) (new_manager False ''Linux-x86_64'')) = ''other''
   \<and> get_missing_dependency_packages no_such_program (Inr ''6.8.0'')
        (detect_distro (Inr arch_os_release) (new_manager False ''Linux-x86_64'')) ''repo''
      = ([''linux-headers-6.8.0'', ''dkms'', ''build-essential''],
         [[''dpkg'', ''-l'', ''linux-headers-6.8.0''], [''dpkg'', ''-l'', ''dkms''],
          [''dpkg'', ''-l'', ''build-essential'']])"
  by code_simp


section \<open>Properties of \<open>fetch_versions\<close>\<close>






























lemma entry_length: "length a \<le> length (entry a b c)" "length b \<le> length (entry a b c)"
  "length c \<le> length (entry a b c)"
  by (simp_all add: entry_def)















subsection \<open>A listing on which \<open>int\<close> raises\<close>















section \<open>Properties of the BackupManager\<close>

subsection \<open>File names follow the clock\<close>


















subsection \<open>Retention\<close>


lemma backup_dir_wlog [simp]: "backup_dir (wlog k a l w) = backup_dir w"
  by (simp add: wlog_def)

lemma backup_dir_record_event [simp]: "backup_dir (record_event e w) = backup_dir w"
  by (simp add: record_event_def)



















text \<open>The example: twelve snapshots on a host where nothing fails.\<close>


lemma system_wlog [simp]: "system (wlog k a l w) = system w"
  by (simp add: wlog_def)

lemma system_record_event [simp]: "system (record_event e w) = system w"
  by (simp add: record_event_def)

lemma system_remove_old [simp]: "system (remove_old h olds w) = system w"
  by (induction olds arbitrary: w) auto









subsection \<open>Restore\<close>

lemma trace_wlog [simp]: "trace (wlog k a l w) = trace w"
  by (simp add: wlog_def)







end
